theory Spec2Isabelle
  imports Main "HOL-Library.Monad_Syntax" "HOL-Library.Word"
begin

section \<open>The graph IR as an arena\<close>

text \<open>
  The passes work on the JIT graph IR: nodes, values and blocks owned by a graph and
  linked by pointers. Pointers become handles (natural numbers) into an arena. A value is
  identified by its \<open>unique()\<close> number. The header that declares the IR is not among the
  sources, so the arena holds exactly the accessors the passes call: \<open>kind()\<close>,
  \<open>inputs()\<close>, \<open>outputs()\<close>, \<open>blocks()\<close>, \<open>owningBlock()\<close>, \<open>owningNode()\<close>,
  \<open>return_node()\<close>, \<open>nodes()\<close>, \<open>Value::node()\<close> and \<open>type()->kind()\<close>. The nodes
  of the arena are the handles below \<open>next_node\<close>, the values those below \<open>next_unique\<close>.

  Modelled from the spec: a block is an ordered sequence of nodes plus a list of
  block-input values and a list of block-output values; the block inputs are the outputs
  of the block's parameter node and the block outputs are the inputs of its return node
  (the passes read \<open>b->return_node()\<close> and take \<open>node()\<close> of a block input).
\<close>

type_synonym node_id = nat
type_synonym value_id = nat
type_synonym block_id = nat
type_synonym symbol = string

datatype TypeKind = TensorType | ListType | IntType | FloatType | BoolType | NoneType | OtherType

record graph =
  kind :: "node_id \<Rightarrow> symbol"
  inputs :: "node_id \<Rightarrow> value_id list"
  outputs :: "node_id \<Rightarrow> value_id list"
  blocks :: "node_id \<Rightarrow> block_id list"
  owningBlock :: "node_id \<Rightarrow> block_id"
  owningNode :: "block_id \<Rightarrow> node_id option"
  param_node :: "block_id \<Rightarrow> node_id"
  return_node :: "block_id \<Rightarrow> node_id"
  nodes :: "block_id \<Rightarrow> node_id list"
  node :: "value_id \<Rightarrow> node_id"
  next_unique :: value_id
  next_node :: node_id
  type_kind :: "value_id \<Rightarrow> TypeKind"

datatype error = InternalAssert | OutOfRange | BadOptionalAccess

definition block_inputs :: "graph \<Rightarrow> block_id \<Rightarrow> value_id list" where
  "block_inputs g b = outputs g (param_node g b)"

definition block_outputs :: "graph \<Rightarrow> block_id \<Rightarrow> value_id list" where
  "block_outputs g b = inputs g (return_node g b)"

text \<open>\<open>Node::addInput(v)\<close>: append \<open>v\<close> to the inputs of the node.\<close>

definition addInput :: "graph \<Rightarrow> node_id \<Rightarrow> value_id \<Rightarrow> graph" where
  "addInput g n v = g\<lparr>inputs := (inputs g)(n := inputs g n @ [v])\<rparr>"

text \<open>\<open>Node::addOutput()\<close>: a fresh value, produced by the node, appended to its outputs.\<close>

definition addOutput :: "graph \<Rightarrow> node_id \<Rightarrow> value_id \<times> graph" where
  "addOutput g n =
     (let v = next_unique g
      in (v, g\<lparr>outputs := (outputs g)(n := outputs g n @ [v]),
                node := (node g)(v := n),
                next_unique := Suc v\<rparr>))"

text \<open>\<open>Block::registerOutput(v)\<close> and \<open>Block::addInput()\<close>.\<close>

definition registerOutput :: "graph \<Rightarrow> block_id \<Rightarrow> value_id \<Rightarrow> graph" where
  "registerOutput g b v = addInput g (return_node g b) v"

definition block_addInput :: "graph \<Rightarrow> block_id \<Rightarrow> value_id \<times> graph" where
  "block_addInput g b = addOutput g (param_node g b)"

text \<open>\<open>Node::replaceInput(i, v)\<close>; the index is checked (\<open>inputs_.at(i)\<close>).\<close>

definition replaceInput :: "graph \<Rightarrow> node_id \<Rightarrow> nat \<Rightarrow> value_id \<Rightarrow> error + graph" where
  "replaceInput g n i v =
     (if i < length (inputs g n) then Inr (g\<lparr>inputs := (inputs g)(n := (inputs g n)[i := v])\<rparr>)
      else Inl OutOfRange)"

subsection \<open>Editing the graph\<close>

text \<open>
  Modelled from the spec: the operations of the IR header that the passes call.
  \<open>createNode(kind, numOutputs)\<close> allocates a node with fresh output values and does not
  insert it into any block. \<open>insertBefore\<close>, \<open>insertAfter\<close>, \<open>moveBefore\<close> relocate a
  node within or between blocks. \<open>destroy(node)\<close> requires the node to have zero
  remaining uses on all its outputs. \<open>replaceAllUsesWith(oldValue, newValue)\<close> rewires
  every use of \<open>oldValue\<close> to \<open>newValue\<close>. A use is an input slot of a node that holds the
  value; use lists are read off the inputs of the nodes of the arena.
\<close>

definition create :: "graph \<Rightarrow> symbol \<Rightarrow> nat \<Rightarrow> node_id \<times> graph" where
  "create g k num_outputs =
     (let n = next_node g; u = next_unique g
      in (n, g\<lparr>kind := (kind g)(n := k),
                inputs := (inputs g)(n := []),
                outputs := (outputs g)(n := [u ..< u + num_outputs]),
                blocks := (blocks g)(n := []),
                node := (\<lambda>v. if u \<le> v \<and> v < u + num_outputs then n else node g v),
                next_unique := u + num_outputs,
                next_node := Suc n\<rparr>))"

definition setType :: "graph \<Rightarrow> value_id \<Rightarrow> TypeKind \<Rightarrow> graph" where
  "setType g v t = g\<lparr>type_kind := (type_kind g)(v := t)\<rparr>"

fun insert_before_list :: "node_id \<Rightarrow> node_id \<Rightarrow> node_id list \<Rightarrow> node_id list" where
  "insert_before_list n anchor [] = [n]"
| "insert_before_list n anchor (x # xs) =
     (if x = anchor then n # x # xs else x # insert_before_list n anchor xs)"

fun insert_after_list :: "node_id \<Rightarrow> node_id \<Rightarrow> node_id list \<Rightarrow> node_id list" where
  "insert_after_list n anchor [] = [n]"
| "insert_after_list n anchor (x # xs) =
     (if x = anchor then x # n # xs else x # insert_after_list n anchor xs)"

text \<open>
  The return node of a block closes its node list and the parameter node opens it:
  inserting before the return node appends, inserting after the parameter node prepends.
\<close>

definition insertBefore :: "graph \<Rightarrow> node_id \<Rightarrow> node_id \<Rightarrow> graph" where
  "insertBefore g n anchor =
     (let b = owningBlock g anchor
      in g\<lparr>nodes := (nodes g)(b := insert_before_list n anchor (nodes g b)),
            owningBlock := (owningBlock g)(n := b)\<rparr>)"

definition insertAfter :: "graph \<Rightarrow> node_id \<Rightarrow> node_id \<Rightarrow> graph" where
  "insertAfter g n anchor =
     (let b = owningBlock g anchor
      in g\<lparr>nodes := (nodes g)(b := (if anchor = param_node g b then n # nodes g b
                                      else insert_after_list n anchor (nodes g b))),
            owningBlock := (owningBlock g)(n := b)\<rparr>)"

definition prependNode :: "graph \<Rightarrow> block_id \<Rightarrow> node_id \<Rightarrow> graph" where
  "prependNode g b n =
     g\<lparr>nodes := (nodes g)(b := n # nodes g b), owningBlock := (owningBlock g)(n := b)\<rparr>"

definition removeFromList :: "graph \<Rightarrow> node_id \<Rightarrow> graph" where
  "removeFromList g n =
     (let b = owningBlock g n in g\<lparr>nodes := (nodes g)(b := removeAll n (nodes g b))\<rparr>)"

definition moveBefore :: "graph \<Rightarrow> node_id \<Rightarrow> node_id \<Rightarrow> graph" where
  "moveBefore g n anchor = insertBefore (removeFromList g n) n anchor"

definition has_uses :: "graph \<Rightarrow> value_id \<Rightarrow> bool" where
  "has_uses g v = list_ex (\<lambda>m. v \<in> set (inputs g m)) [0 ..< next_node g]"

definition destroy :: "graph \<Rightarrow> node_id \<Rightarrow> error + graph" where
  "destroy g n =
     (if list_ex (has_uses g) (outputs g n) then Inl InternalAssert
      else Inr ((removeFromList g n)\<lparr>inputs := (inputs g)(n := []),
                                      outputs := (outputs g)(n := [])\<rparr>))"

definition replaceAllUsesWith :: "graph \<Rightarrow> value_id \<Rightarrow> value_id \<Rightarrow> graph" where
  "replaceAllUsesWith g old_v new_v =
     g\<lparr>inputs := (\<lambda>m. map (\<lambda>v. if v = old_v then new_v else v) (inputs g m))\<rparr>"

text \<open>\<open>Node::replaceAllUsesWith(n)\<close>: output by output; the two nodes have as many outputs.\<close>

definition node_replaceAllUsesWith :: "graph \<Rightarrow> node_id \<Rightarrow> node_id \<Rightarrow> error + graph" where
  "node_replaceAllUsesWith g n new_n =
     (if length (outputs g n) \<noteq> length (outputs g new_n) then Inl InternalAssert
      else Inr (foldl (\<lambda>g' (old_v, new_v). replaceAllUsesWith g' old_v new_v) g
                  (zip (outputs g n) (outputs g new_n))))"

text \<open>
  A node is in the graph when the node list of its block holds it; \<open>nodes_in\<close> lists the
  nodes of the arena that are.
\<close>

definition in_graph :: "graph \<Rightarrow> node_id \<Rightarrow> bool" where
  "in_graph g n \<longleftrightarrow> n \<in> set (nodes g (owningBlock g n))"

definition nodes_in :: "graph \<Rightarrow> node_id list" where
  "nodes_in g = filter (in_graph g) [0 ..< next_node g]"

section \<open>The alias tracker of the mutation-removal pass\<close>

text \<open>
  \<open>alias_to_value_\<close> maps an alias to its root; \<open>value_to_sorted_aliases_\<close> maps a root to a
  \<open>std::set\<close> ordered by \<open>aliasComp\<close>. \<open>Node::isBefore\<close> belongs to the IR header that is
  not among the sources; it is the parameter \<open>bef\<close> of everything below.

  \<open>aliasComp\<close> orders two values by the position of their nodes and falls back on the
  \<open>unique()\<close> numbers when neither node is before the other. That is not a strict weak
  order in general, so the place a new element takes in the set depends on the
  comparisons the container actually makes. The set is therefore kept as the
  red-black tree of the standard library, with its shape and colours; iterating the set
  is the in-order traversal of the tree.
\<close>

datatype colour = Red | Black

datatype 'a rb_tree = Leaf | Fork colour "'a rb_tree" 'a "'a rb_tree"

fun in_order :: "'a rb_tree \<Rightarrow> 'a list" where
  "in_order Leaf = []"
| "in_order (Fork c l v r) = in_order l @ v # in_order r"

text \<open>
  The search for the place of a new key \<open>k\<close> descends from the root, to the left where
  \<open>k\<close> is less than the key of the node and to the right otherwise. The in-order
  predecessor of the place reached is the last node at which the descent went right;
  \<open>k\<close> is inserted when there is no such node or when its key is less than \<open>k\<close>, and
  dropped otherwise.
\<close>

fun last_right :: "('a \<Rightarrow> 'a \<Rightarrow> bool) \<Rightarrow> 'a \<Rightarrow> 'a rb_tree \<Rightarrow> 'a option \<Rightarrow> 'a option" where
  "last_right lt k Leaf j = j"
| "last_right lt k (Fork c l v r) j =
     (if lt k v then last_right lt k l j else last_right lt k r (Some v))"

text \<open>
  The new node is red and becomes a child of the node where the descent ended. The
  rebalancing loop then walks up from the new node \<open>x\<close>: while the parent of \<open>x\<close> is red,
  a red uncle is recoloured together with the parent and the grandparent becomes the
  new \<open>x\<close>; with a black (or absent) uncle one or two rotations end the loop. On the way
  back from the recursive descent a subtree comes with its status: nothing left to do,
  its root is the \<open>x\<close> of the loop, or its root is a red parent of \<open>x\<close> (with the side of
  \<open>x\<close>) and the node above is the grandparent.
\<close>

datatype side = LeftSide | RightSide

datatype status = Balanced | Fresh | Clash side

fun rebalance_left :: "colour \<Rightarrow> 'a rb_tree \<times> status \<Rightarrow> 'a \<Rightarrow> 'a rb_tree \<Rightarrow> 'a rb_tree \<times> status" where
  "rebalance_left c (l, Balanced) v r = (Fork c l v r, Balanced)"
| "rebalance_left c (l, Fresh) v r =
     (Fork c l v r, if c = Red then Clash LeftSide else Balanced)"
| "rebalance_left c (Leaf, Clash s) v r = (Fork c Leaf v r, Balanced)"
| "rebalance_left c (Fork pc pl pv pr, Clash s) v r =
     (case r of
        Fork Red ul uv ur \<Rightarrow> (Fork Red (Fork Black pl pv pr) v (Fork Black ul uv ur), Fresh)
      | _ \<Rightarrow>
          (case s of
             LeftSide \<Rightarrow> (Fork Black pl pv (Fork Red pr v r), Balanced)
           | RightSide \<Rightarrow>
               (case pr of
                  Leaf \<Rightarrow> (Fork c (Fork pc pl pv pr) v r, Balanced)
                | Fork xc xl xv xr \<Rightarrow>
                    (Fork Black (Fork pc pl pv xl) xv (Fork Red xr v r), Balanced))))"

fun rebalance_right :: "colour \<Rightarrow> 'a rb_tree \<Rightarrow> 'a \<Rightarrow> 'a rb_tree \<times> status \<Rightarrow> 'a rb_tree \<times> status" where
  "rebalance_right c l v (r, Balanced) = (Fork c l v r, Balanced)"
| "rebalance_right c l v (r, Fresh) =
     (Fork c l v r, if c = Red then Clash RightSide else Balanced)"
| "rebalance_right c l v (Leaf, Clash s) = (Fork c l v Leaf, Balanced)"
| "rebalance_right c l v (Fork pc pl pv pr, Clash s) =
     (case l of
        Fork Red ul uv ur \<Rightarrow> (Fork Red (Fork Black ul uv ur) v (Fork Black pl pv pr), Fresh)
      | _ \<Rightarrow>
          (case s of
             RightSide \<Rightarrow> (Fork Black (Fork Red l v pl) pv pr, Balanced)
           | LeftSide \<Rightarrow>
               (case pl of
                  Leaf \<Rightarrow> (Fork c l v (Fork pc pl pv pr), Balanced)
                | Fork xc xl xv xr \<Rightarrow>
                    (Fork Black (Fork Red l v xl) xv (Fork pc xr pv pr), Balanced))))"

fun rb_ins :: "('a \<Rightarrow> 'a \<Rightarrow> bool) \<Rightarrow> 'a \<Rightarrow> 'a rb_tree \<Rightarrow> 'a rb_tree \<times> status" where
  "rb_ins lt k Leaf = (Fork Red Leaf k Leaf, Fresh)"
| "rb_ins lt k (Fork c l v r) =
     (if lt k v then rebalance_left c (rb_ins lt k l) v r
      else rebalance_right c l v (rb_ins lt k r))"

fun blacken :: "'a rb_tree \<Rightarrow> 'a rb_tree" where
  "blacken Leaf = Leaf"
| "blacken (Fork c l v r) = Fork Black l v r"

text \<open>\<open>std::set::insert\<close> with comparator \<open>lt\<close>; the root is black after every insertion.\<close>

definition set_insert :: "('a \<Rightarrow> 'a \<Rightarrow> bool) \<Rightarrow> 'a \<Rightarrow> 'a rb_tree \<Rightarrow> 'a rb_tree" where
  "set_insert lt k t =
     (case last_right lt k t None of
        None \<Rightarrow> blacken (fst (rb_ins lt k t))
      | Some j \<Rightarrow> if lt j k then blacken (fst (rb_ins lt k t)) else t)"

record ValueTracker =
  root_block :: block_id
  alias_to_value :: "value_id \<rightharpoonup> value_id"
  value_to_sorted_aliases :: "value_id \<rightharpoonup> value_id rb_tree"

type_synonym before = "graph \<Rightarrow> node_id \<Rightarrow> node_id \<Rightarrow> bool"


definition init :: "graph \<Rightarrow> block_id \<Rightarrow> ValueTracker" where
  "init g b = \<lparr>root_block = b, alias_to_value = Map.empty, value_to_sorted_aliases = Map.empty\<rparr>"

definition aliasComp :: "before \<Rightarrow> graph \<Rightarrow> value_id \<Rightarrow> value_id \<Rightarrow> bool" where
  "aliasComp bef g a b =
     (let n_a = node g a; n_b = node g b
      in if n_a = n_b then False
         else let a_b = bef g n_a n_b; b_a = bef g n_b n_a
              in if a_b = b_a then a < b else a_b)"

text \<open>
  \<open>value_to_sorted_aliases_[r]\<close>: \<open>operator[]\<close> yields the empty set for a missing key.
  \<open>sorted_aliases\<close> lists the set of a root in iteration order.
\<close>

definition alias_set :: "ValueTracker \<Rightarrow> value_id \<Rightarrow> value_id rb_tree" where
  "alias_set vt r = (case value_to_sorted_aliases vt r of None \<Rightarrow> Leaf | Some t \<Rightarrow> t)"

definition sorted_aliases :: "ValueTracker \<Rightarrow> value_id \<Rightarrow> value_id list" where
  "sorted_aliases vt r = in_order (alias_set vt r)"

definition insert_alias :: "before \<Rightarrow> graph \<Rightarrow> value_id \<Rightarrow> value_id \<Rightarrow> ValueTracker \<Rightarrow> ValueTracker" where
  "insert_alias bef g r v vt =
     vt\<lparr>value_to_sorted_aliases :=
          (value_to_sorted_aliases vt)(r \<mapsto> set_insert (aliasComp bef g) v (alias_set vt r))\<rparr>"

definition set_alias :: "value_id \<Rightarrow> value_id \<Rightarrow> ValueTracker \<Rightarrow> ValueTracker" where
  "set_alias v r vt = vt\<lparr>alias_to_value := (alias_to_value vt)(v \<mapsto> r)\<rparr>"

text \<open>
  The lambda \<open>isAncestor\<close>: walk from \<open>b\<close> up the owning nodes. The walk has no bound of
  its own, so not returning is the value \<open>None\<close>.
\<close>

partial_function (option) isAncestor :: "graph \<Rightarrow> block_id \<Rightarrow> block_id \<Rightarrow> bool option" where
  "isAncestor g a b =
     (case owningNode g b of
        None \<Rightarrow> Some (a = b)
      | Some n \<Rightarrow> if a = b then Some True else isAncestor g a (owningBlock g n))"

declare isAncestor.simps [code]

text \<open>
  An alias is visible at node \<open>n\<close> when its node is before \<open>n\<close> and its block is an
  ancestor of the block of \<open>n\<close>: the condition tested in \<open>findAliasForValueAtNode\<close>.
\<close>

definition visible :: "before \<Rightarrow> graph \<Rightarrow> node_id \<Rightarrow> value_id \<Rightarrow> bool" where
  "visible bef g n alias \<longleftrightarrow>
     bef g (node g alias) n \<and>
     isAncestor g (owningBlock g (node g alias)) (owningBlock g n) = Some True"

text \<open>
  The blocks form a tree when every block lies deeper than the block of its owning node.
\<close>

definition wf_blocks :: "(block_id \<Rightarrow> nat) \<Rightarrow> graph \<Rightarrow> bool" where
  "wf_blocks depth g \<longleftrightarrow>
     (\<forall>b n. owningNode g b = Some n \<longrightarrow> depth (owningBlock g n) < depth b)"

text \<open>
  The loop of \<open>findAliasForValueAtNode\<close> over the sorted aliases: the last alias whose node
  is before \<open>n\<close> and whose block is an ancestor of the block of \<open>n\<close>.
\<close>

fun find_last_alias ::
  "before \<Rightarrow> graph \<Rightarrow> node_id \<Rightarrow> value_id list \<Rightarrow> value_id option \<Rightarrow> value_id option option" where
  "find_last_alias bef g n [] found_alias = Some found_alias"
| "find_last_alias bef g n (alias # aliases) found_alias =
     (let alias_n = node g alias
      in if bef g alias_n n
         then do {
           anc \<leftarrow> isAncestor g (owningBlock g alias_n) (owningBlock g n);
           find_last_alias bef g n aliases (if anc then Some alias else found_alias) }
         else find_last_alias bef g n aliases found_alias)"

definition findAliasForValueAtNode ::
  "before \<Rightarrow> graph \<Rightarrow> ValueTracker \<Rightarrow> value_id \<Rightarrow> node_id \<Rightarrow> (error + value_id) option" where
  "findAliasForValueAtNode bef g vt v n =
     (case alias_to_value vt v of
        None \<Rightarrow> Some (Inr v)
      | Some root_v \<Rightarrow>
          (case value_to_sorted_aliases vt root_v of
             None \<Rightarrow> Some (Inl InternalAssert)
           | Some aliases \<Rightarrow> do {
               found_alias \<leftarrow> find_last_alias bef g n (in_order aliases) None;
               case found_alias of
                 None \<Rightarrow> Some (Inl InternalAssert)
               | Some alias \<Rightarrow> Some (Inr alias) }))"

text \<open>
  \<open>correctAliasReferenceForInputs\<close>: the loop over the input slots \<open>i, i+1, ...\<close> of \<open>n\<close>;
  \<open>k\<close> counts the slots still to visit.
\<close>

fun correct_inputs_from ::
  "before \<Rightarrow> ValueTracker \<Rightarrow> node_id \<Rightarrow> nat \<Rightarrow> nat \<Rightarrow> graph \<Rightarrow> (error + graph) option" where
  "correct_inputs_from bef vt n i 0 g = Some (Inr g)"
| "correct_inputs_from bef vt n i (Suc k) g =
     (let in_v = inputs g n ! i
      in do {
        r \<leftarrow> findAliasForValueAtNode bef g vt in_v n;
        case r of
          Inl e \<Rightarrow> Some (Inl e)
        | Inr alias \<Rightarrow>
            if alias \<noteq> in_v
            then (case replaceInput g n i alias of
                    Inl e \<Rightarrow> Some (Inl e)
                  | Inr g' \<Rightarrow> correct_inputs_from bef vt n (Suc i) k g')
            else correct_inputs_from bef vt n (Suc i) k g })"

definition correctAliasReferenceForInputs ::
  "before \<Rightarrow> ValueTracker \<Rightarrow> node_id \<Rightarrow> graph \<Rightarrow> (error + graph) option" where
  "correctAliasReferenceForInputs bef vt n g = correct_inputs_from bef vt n 0 (length (inputs g n)) g"

text \<open>
  \<open>registerSetValue\<close>. The first part always runs: \<open>old_v\<close> becomes its own root when it
  is seen for the first time, and \<open>new_v\<close> is recorded as an alias of the root.
\<close>

definition prim_Loop :: symbol where "prim_Loop = ''prim::Loop''"
definition prim_If :: symbol where "prim_If = ''prim::If''"

definition root_of :: "ValueTracker \<Rightarrow> value_id \<Rightarrow> value_id" where
  "root_of vt old_v = (case alias_to_value vt old_v of None \<Rightarrow> old_v | Some root_v \<Rightarrow> root_v)"

definition track_root :: "value_id \<Rightarrow> ValueTracker \<Rightarrow> ValueTracker" where
  "track_root old_v vt =
     (case alias_to_value vt old_v of
        None \<Rightarrow> vt\<lparr>alias_to_value := (alias_to_value vt)(old_v \<mapsto> old_v),
                   value_to_sorted_aliases :=
                     (value_to_sorted_aliases vt)(old_v \<mapsto> Fork Black Leaf old_v Leaf)\<rparr>
      | Some root_v \<Rightarrow> vt)"

definition record_alias :: "before \<Rightarrow> graph \<Rightarrow> ValueTracker \<Rightarrow> value_id \<Rightarrow> value_id \<Rightarrow> ValueTracker" where
  "record_alias bef g vt old_v new_v =
     (let root_v = root_of vt old_v
      in insert_alias bef g root_v new_v (set_alias new_v root_v (track_root old_v vt)))"

text \<open>The two \<open>std::any_of\<close>: is an alias already an output of the block?\<close>

definition registered :: "graph \<Rightarrow> block_id \<Rightarrow> value_id list \<Rightarrow> bool" where
  "registered g owning_block sorted_alias =
     list_ex (\<lambda>out. list_ex (\<lambda>alias. alias = out) sorted_alias) (block_outputs g owning_block)"

text \<open>
  \<open>from_outer\<close>: does some alias come from a block that is an ancestor of the block of the
  \<open>If\<close> node? \<open>std::any_of\<close> stops at the first alias that does.
\<close>

fun from_outer :: "graph \<Rightarrow> block_id \<Rightarrow> value_id list \<Rightarrow> bool option" where
  "from_outer g b [] = Some False"
| "from_outer g b (alias # aliases) = do {
     anc \<leftarrow> isAncestor g (owningBlock g (node g alias)) b;
     if anc then Some True else from_outer g b aliases }"

text \<open>The \<open>Loop\<close> branch, up to the recursive call: the new graph, tracker and loop output.\<close>

definition thread_loop ::
  "before \<Rightarrow> graph \<Rightarrow> ValueTracker \<Rightarrow> block_id \<Rightarrow> node_id \<Rightarrow> value_id \<Rightarrow> value_id
     \<Rightarrow> graph \<times> ValueTracker \<times> value_id" where
  "thread_loop bef g vt owning_block owning_blocknode root_v new_v =
     (let g1 = registerOutput g owning_block new_v;
          (new_block_in, g2) = block_addInput g1 owning_block;
          vt1 = insert_alias bef g2 root_v new_block_in vt;
          vt2 = set_alias new_block_in root_v vt1;
          g3 = addInput g2 owning_blocknode root_v;
          (new_blocknode_out, g4) = addOutput g3 owning_blocknode
      in (g4, vt2, new_blocknode_out))"

text \<open>The \<open>If\<close> branch: one new output on each sub-block, then one on the \<open>If\<close> node.\<close>

fun register_if_outputs :: "graph \<Rightarrow> block_id \<Rightarrow> value_id \<Rightarrow> value_id \<Rightarrow> block_id list \<Rightarrow> graph" where
  "register_if_outputs g owning_block root_v new_v [] = g"
| "register_if_outputs g owning_block root_v new_v (if_sub_block # bs) =
     register_if_outputs
       (registerOutput g if_sub_block (if owning_block = if_sub_block then new_v else root_v))
       owning_block root_v new_v bs"

definition thread_if ::
  "graph \<Rightarrow> block_id \<Rightarrow> node_id \<Rightarrow> value_id \<Rightarrow> value_id \<Rightarrow> graph \<times> value_id" where
  "thread_if g owning_block owning_blocknode root_v new_v =
     (let g1 = register_if_outputs g owning_block root_v new_v (blocks g owning_blocknode);
          (new_blocknode_out, g2) = addOutput g1 owning_blocknode
      in (g2, new_blocknode_out))"

partial_function (option) registerSetValue ::
  "before \<Rightarrow> graph \<Rightarrow> ValueTracker \<Rightarrow> value_id \<Rightarrow> value_id \<Rightarrow> (error + graph \<times> ValueTracker) option" where
  "registerSetValue bef g vt old_v new_v =
     (let owning_block = owningBlock g (node g new_v);
          root_v = root_of vt old_v;
          vt1 = record_alias bef g vt old_v new_v
      in if owning_block = root_block vt then Some (Inr (g, vt1))
         else
          (case owningNode g owning_block of
             None \<Rightarrow> Some (Inl InternalAssert)
           | Some owning_blocknode \<Rightarrow>
               if kind g owning_blocknode \<noteq> prim_Loop \<and> kind g owning_blocknode \<noteq> prim_If
               then Some (Inr (g, vt1))
               else if registered g owning_block (sorted_aliases vt1 root_v)
               then Some (Inr (g, vt1))
               else if kind g owning_blocknode = prim_Loop
               then (case thread_loop bef g vt1 owning_block owning_blocknode root_v new_v of
                       (g', vt', new_blocknode_out) \<Rightarrow>
                         registerSetValue bef g' vt' root_v new_blocknode_out)
               else do {
                 outer \<leftarrow> from_outer g (owningBlock g owning_blocknode) (sorted_aliases vt1 root_v);
                 if outer
                 then (case thread_if g owning_block owning_blocknode root_v new_v of
                         (g', new_blocknode_out) \<Rightarrow>
                           registerSetValue bef g' vt1 root_v new_blocknode_out)
                 else Some (Inr (g, vt1)) }))"

subsection \<open>Node order for concrete graphs\<close>

text \<open>
  Modelled from the spec: \<open>Node::isBefore\<close> of the IR header, which is not among the
  sources. A node has a position in its owning block's order; the parameter node of a
  block comes first and the return node last. Two nodes of different blocks are compared
  where their block chains first meet: each is replaced by the enclosing node that lies in
  the common block. The climb is bounded by \<open>d\<close> levels of nesting. This instance of the
  parameter \<open>bef\<close> is used for the concrete graphs below.
\<close>

fun index_of :: "'a \<Rightarrow> 'a list \<Rightarrow> nat" where
  "index_of x [] = 0"
| "index_of x (y # ys) = (if x = y then 0 else Suc (index_of x ys))"

definition topo_position :: "graph \<Rightarrow> node_id \<Rightarrow> nat" where
  "topo_position g n =
     (let b = owningBlock g n
      in if n = param_node g b then 0
         else if n = return_node g b then Suc (Suc (length (nodes g b)))
         else Suc (index_of n (nodes g b)))"

fun hoist :: "nat \<Rightarrow> graph \<Rightarrow> block_id \<Rightarrow> node_id \<Rightarrow> node_id option" where
  "hoist 0 g b n = (if owningBlock g n = b then Some n else None)"
| "hoist (Suc d) g b n =
     (if owningBlock g n = b then Some n
      else case owningNode g (owningBlock g n) of None \<Rightarrow> None | Some m \<Rightarrow> hoist d g b m)"

fun isBefore_from :: "nat \<Rightarrow> nat \<Rightarrow> graph \<Rightarrow> node_id \<Rightarrow> node_id \<Rightarrow> bool" where
  "isBefore_from 0 d g lhs n = False"
| "isBefore_from (Suc k) d g lhs n =
     (case hoist d g (owningBlock g lhs) n of
        Some rhs \<Rightarrow> topo_position g lhs < topo_position g rhs
      | None \<Rightarrow>
          (case owningNode g (owningBlock g lhs) of
             None \<Rightarrow> False
           | Some m \<Rightarrow> isBefore_from k d g m n))"

definition isBefore :: "nat \<Rightarrow> before" where
  "isBefore d g a b = isBefore_from (Suc d) d g a b"

subsection \<open>A graph with a conditional\<close>

text \<open>
  \<^verbatim>\<open>
  graph(%0, %1, %2):               block 0: parameter node 0, return node 1
    %3 = aten::add(%0, %1)         node 2
    prim::If(%2)                   node 3
      block 1:                     parameter node 4, return node 5
        %4 = aten::mul(%0, %1)     node 6
      block 2:                     parameter node 7, return node 8
        %5 = aten::neg(%0)         node 9
    %6 = aten::sub(%0, %1)         node 10
    return (%6)
  \<close>
\<close>

definition if_graph :: graph where
  "if_graph =
     \<lparr>kind = (\<lambda>n. ''prim::Param'')
         (1 := ''prim::Return'', 5 := ''prim::Return'', 8 := ''prim::Return'',
          2 := ''aten::add'', 3 := ''prim::If'', 6 := ''aten::mul'', 9 := ''aten::neg'',
          10 := ''aten::sub''),
      inputs = (\<lambda>n. [])(2 := [0, 1], 3 := [2], 6 := [0, 1], 9 := [0], 10 := [0, 1], 1 := [6]),
      outputs = (\<lambda>n. [])(0 := [0, 1, 2], 2 := [3], 6 := [4], 9 := [5], 10 := [6]),
      blocks = (\<lambda>n. [])(3 := [1, 2]),
      owningBlock = (\<lambda>n. 0)(4 := 1, 5 := 1, 6 := 1, 7 := 2, 8 := 2, 9 := 2),
      owningNode = (\<lambda>b. None)(1 := Some 3, 2 := Some 3),
      param_node = (\<lambda>b. 0)(1 := 4, 2 := 7),
      return_node = (\<lambda>b. 1)(1 := 5, 2 := 8),
      nodes = (\<lambda>b. [])(0 := [2, 3, 10], 1 := [6], 2 := [9]),
      node = (\<lambda>v. 0)(3 := 2, 4 := 6, 5 := 9, 6 := 10),
      next_unique = 7,
      next_node = 11,
      type_kind = (\<lambda>v. TensorType)\<rparr>"

text \<open>
  Registering \<open>(%0, %3)\<close> and then \<open>(%0, %4)\<close> with the tracker: the second write is in
  the first branch of the conditional, so \<open>%4\<close> and \<open>%0\<close> become outputs of the two
  branches and the conditional gets the new output \<open>%7\<close>.
\<close>

definition if_tracker1 :: ValueTracker where
  "if_tracker1 =
     \<lparr>root_block = 0, alias_to_value = [0 \<mapsto> 0, 3 \<mapsto> 0],
      value_to_sorted_aliases = [0 \<mapsto> Fork Black Leaf 0 (Fork Red Leaf 3 Leaf)]\<rparr>"

definition if_tracker :: ValueTracker where
  "if_tracker =
     \<lparr>root_block = 0, alias_to_value = [0 \<mapsto> 0, 3 \<mapsto> 0, 4 \<mapsto> 0, 7 \<mapsto> 0],
      value_to_sorted_aliases =
        [0 \<mapsto> Fork Black (Fork Black Leaf 0 Leaf) 3 (Fork Black Leaf 4 (Fork Red Leaf 7 Leaf))]\<rparr>"

definition if_graph_threaded :: graph where
  "if_graph_threaded =
     if_graph\<lparr>inputs := (inputs if_graph)(5 := [4], 8 := [0]),
              outputs := (outputs if_graph)(3 := [7]),
              node := (node if_graph)(7 := 3),
              next_unique := 8\<rparr>"

definition if_depth :: "block_id \<Rightarrow> nat" where
  "if_depth b = (if b = 0 then 0 else 1)"

declare registerSetValue.simps [code]


subsection \<open>A conditional that mutates a local value\<close>



subsection \<open>A loop that mutates a value of the enclosing block\<close>




section \<open>Converting in-place operators\<close>

text \<open>
  The operator-schema collaborator and the pattern encapsulation are not among the
  sources; they are parameters. \<open>inplaceOpVariant\<close> is the query of the mutation
  remover. \<open>EncapsulatePatternIntoSubblock\<close> answers \<open>None\<close> or the placeholder node it
  made, with the graph after it. The schema name of an \<open>aten\<close> node is taken to be the
  qualified name of its kind.
\<close>

record collaborators =
  before_of :: before
  inplaceOpVariant :: "graph \<Rightarrow> node_id \<Rightarrow> bool"
  EncapsulatePatternIntoSubblock :: "graph \<Rightarrow> node_id \<Rightarrow> (node_id \<times> graph) option"

definition aten_copy_inplace :: symbol where "aten_copy_inplace = ''aten::copy_''"
definition aten_index_put :: symbol where "aten_index_put = ''aten::index_put''"
definition aten_index_put_inplace :: symbol where "aten_index_put_inplace = ''aten::index_put_''"
definition aten_insert :: symbol where "aten_insert = ''aten::insert''"
definition aten_append :: symbol where "aten_append = ''aten::append''"
definition aten_pop :: symbol where "aten_pop = ''aten::pop''"
definition aten_Delete :: symbol where "aten_Delete = ''aten::Delete''"
definition aten_set_item :: symbol where "aten_set_item = ''aten::_set_item''"
definition aten_select :: symbol where "aten_select = ''aten::select''"
definition aten_slice :: symbol where "aten_slice = ''aten::slice''"
definition aten_getitem :: symbol where "aten_getitem = ''aten::__getitem__''"
definition aten_list :: symbol where "aten_list = ''aten::list''"
definition aten_clone :: symbol where "aten_clone = ''aten::clone''"
definition aten_expand_as :: symbol where "aten_expand_as = ''aten::expand_as''"
definition prim_Constant :: symbol where "prim_Constant = ''prim::Constant''"
definition prim_ListConstruct :: symbol where "prim_ListConstruct = ''prim::ListConstruct''"

definition is_aten :: "symbol \<Rightarrow> bool" where
  "is_aten k \<longleftrightarrow> take 6 k = ''aten::''"

text \<open>\<open>Node::input(i)\<close> is a checked access; \<open>Node::output()\<close> asserts a single output.\<close>

definition input_at :: "graph \<Rightarrow> node_id \<Rightarrow> nat \<Rightarrow> error + value_id" where
  "input_at g n i = (if i < length (inputs g n) then Inr (inputs g n ! i) else Inl OutOfRange)"

definition output_of :: "graph \<Rightarrow> node_id \<Rightarrow> error + value_id" where
  "output_of g n = (case outputs g n of [v] \<Rightarrow> Inr v | _ \<Rightarrow> Inl InternalAssert)"

text \<open>
  A node made with its inputs and one output, put before the insertion point:
  \<open>graph->insert(kind, inputs)\<close>, \<open>insertNode(createList(...))\<close> and \<open>insertConstant\<close>
  under a \<open>WithInsertPoint\<close> guard. The answer is the node, its output and the graph.
\<close>

definition insert_node ::
  "graph \<Rightarrow> symbol \<Rightarrow> value_id list \<Rightarrow> TypeKind \<Rightarrow> node_id \<Rightarrow> node_id \<times> value_id \<times> graph" where
  "insert_node g k ins t point =
     (let (n, g1) = create g k 1;
          v = next_unique g;
          g2 = g1\<lparr>inputs := (inputs g1)(n := ins)\<rparr>;
          g3 = setType g2 v t
      in (n, v, insertBefore g3 n point))"

definition PrepareIndexPutForONNX ::
  "collaborators \<Rightarrow> graph \<Rightarrow> node_id \<Rightarrow> error + graph \<times> (value_id \<times> value_id) option" where
  "PrepareIndexPutForONNX env g n =
     (if kind g n \<noteq> aten_index_put \<and> kind g n \<noteq> aten_index_put_inplace then Inl InternalAssert
      else case EncapsulatePatternIntoSubblock env g n of
             None \<Rightarrow> Inl BadOptionalAccess
           | Some (placeholder_node, g1) \<Rightarrow>
               (case destroy g1 n of
                  Inl e \<Rightarrow> Inl e
                | Inr g2 \<Rightarrow>
                    (case input_at g2 placeholder_node 0 of
                       Inl e \<Rightarrow> Inl e
                     | Inr orig_data \<Rightarrow>
                         (case output_of g2 placeholder_node of
                            Inl e \<Rightarrow> Inl e
                          | Inr new_out \<Rightarrow> Inr (g2, Some (orig_data, new_out))))))"

definition PrepareCopyForONNX ::
  "collaborators \<Rightarrow> graph \<Rightarrow> node_id \<Rightarrow> error + graph \<times> (value_id \<times> value_id) option" where
  "PrepareCopyForONNX env g n =
     (if kind g n \<noteq> aten_copy_inplace then Inl InternalAssert
      else
        let (dummy_list_node, dummy_list, g1) = insert_node g prim_ListConstruct [] ListType n
        in case input_at g1 n 1 of
             Inl e \<Rightarrow> Inl e
           | Inr in1 \<Rightarrow>
          (case input_at g1 n 0 of
             Inl e \<Rightarrow> Inl e
           | Inr in0 \<Rightarrow>
          (let (expand_node, expanded_value, g2) =
                 insert_node g1 aten_expand_as [in1, in0] (type_kind g1 in1) n
           in case input_at g2 n 2 of
                Inl e \<Rightarrow> Inl e
              | Inr in2 \<Rightarrow>
             (case output_of g2 n of
                Inl e \<Rightarrow> Inl e
              | Inr out \<Rightarrow>
             (let (index_put_node, index_put, g3) =
                    insert_node g2 aten_index_put_inplace [in0, dummy_list, expanded_value, in2]
                      (type_kind g2 out) n;
                  g4 = replaceAllUsesWith g3 out index_put
              in case destroy g4 n of
                   Inl e \<Rightarrow> Inl e
                 | Inr g5 \<Rightarrow> PrepareIndexPutForONNX env g5 index_put_node)))))"

definition PrepareInplaceOpsInBlocksForONNX ::
  "collaborators \<Rightarrow> graph \<Rightarrow> node_id \<Rightarrow> error + graph \<times> (value_id \<times> value_id) option" where
  "PrepareInplaceOpsInBlocksForONNX env g n =
     (if \<not> is_aten (kind g n) then Inr (g, None)
      else
        let name = kind g n
        in if name = [] then Inl OutOfRange
           else if last name \<noteq> CHR ''_'' then Inr (g, None)
           else
             let new_schema = butlast name
             in case input_at g n 0 of
                  Inl e \<Rightarrow> Inl e
                | Inr in0 \<Rightarrow>
               (let input_node = node g in0;
                    (new_node, g1) = create g new_schema 1;
                    new_out = next_unique g;
                    g2 = foldl (\<lambda>g' v. addInput g' new_node v) g1 (inputs g n)
                in case output_of g2 n of
                     Inl e \<Rightarrow> Inl e
                   | Inr out \<Rightarrow>
                  (let g3 = setType g2 new_out (type_kind g2 out);
                       g4 = insertBefore g3 new_node n
                   in case node_replaceAllUsesWith g4 n new_node of
                        Inl e \<Rightarrow> Inl e
                      | Inr g5 \<Rightarrow>
                     (case destroy g5 n of
                        Inl e \<Rightarrow> Inl e
                      | Inr g6 \<Rightarrow>
                          if kind g6 input_node = aten_select \<or> kind g6 input_node = aten_slice
                          then
                            (let (false_node, false_val, g7) =
                                   insert_node g6 prim_Constant [] BoolType new_node;
                                 (new_copy, g8) = create g7 aten_copy_inplace 1
                             in case input_at g8 new_node 0 of
                                  Inl e \<Rightarrow> Inl e
                                | Inr self \<Rightarrow>
                                   (let g9 = addInput (addInput (addInput g8 new_copy self) new_copy new_out)
                                               new_copy false_val;
                                        g10 = insertAfter g9 new_copy new_node
                                    in PrepareCopyForONNX env g10 new_copy))
                          else
                            (case input_at g6 new_node 0 of
                               Inl e \<Rightarrow> Inl e
                             | Inr self \<Rightarrow> Inr (g6, Some (self, new_out)))))))"

text \<open>The list operators keep their node; its output becomes the new alias of the list.\<close>

definition PrepareListPopForONNX ::
  "graph \<Rightarrow> node_id \<Rightarrow> error + graph \<times> (value_id \<times> value_id) option" where
  "PrepareListPopForONNX g n =
     (if kind g n \<noteq> aten_pop then Inl InternalAssert
      else case output_of g n of
             Inl e \<Rightarrow> Inl e
           | Inr out \<Rightarrow>
               (let (getitem_node, getitem_out, g1) =
                      insert_node g aten_getitem (inputs g n) (type_kind g out) n;
                    g2 = replaceAllUsesWith g1 out getitem_out
                in case input_at g2 n 0 of
                     Inl e \<Rightarrow> Inl e
                   | Inr seq \<Rightarrow> Inr (setType g2 out (type_kind g2 seq), Some (seq, out))))"

definition PrepareListDeleteForONNX ::
  "graph \<Rightarrow> node_id \<Rightarrow> error + graph \<times> (value_id \<times> value_id) option" where
  "PrepareListDeleteForONNX g n =
     (if kind g n \<noteq> aten_Delete then Inl InternalAssert
      else
        let (v, g1) = addOutput g n
        in case output_of g1 n of
             Inl e \<Rightarrow> Inl e
           | Inr out \<Rightarrow>
               (case input_at g1 n 0 of
                  Inl e \<Rightarrow> Inl e
                | Inr seq \<Rightarrow> Inr (setType g1 out (type_kind g1 seq), Some (seq, out))))"

definition PrepareListAppendAndInsertForONNX ::
  "graph \<Rightarrow> node_id \<Rightarrow> error + graph \<times> (value_id \<times> value_id) option" where
  "PrepareListAppendAndInsertForONNX g n =
     (if kind g n \<noteq> aten_insert \<and> kind g n \<noteq> aten_append then Inl InternalAssert
      else
        let add_output = (outputs g n = []);
            g1 = (if add_output then snd (addOutput g n) else g)
        in case output_of g1 n of
             Inl e \<Rightarrow> Inl e
           | Inr out \<Rightarrow>
               (case input_at g1 n 0 of
                  Inl e \<Rightarrow> Inl e
                | Inr seq \<Rightarrow>
                    Inr (if add_output then setType g1 out (type_kind g1 seq) else g1,
                         Some (seq, out))))"

definition PrepareListSetItemForONNX ::
  "graph \<Rightarrow> node_id \<Rightarrow> error + graph \<times> (value_id \<times> value_id) option" where
  "PrepareListSetItemForONNX g n =
     (if kind g n \<noteq> aten_set_item then Inl InternalAssert
      else case input_at g n 0 of
             Inl e \<Rightarrow> Inl e
           | Inr seq \<Rightarrow>
               (case output_of g n of
                  Inl e \<Rightarrow> Inl e
                | Inr out \<Rightarrow> Inr (g, Some (seq, out))))"

text \<open>
  The body of the loop of \<open>convertInplaceOpsAndTrackAlias\<close> for a node that is neither
  an \<open>If\<close> nor a \<open>Loop\<close>: the conversion chosen by the kind of the node, in the order of
  the source.
\<close>

definition prepare_node ::
  "collaborators \<Rightarrow> graph \<Rightarrow> node_id \<Rightarrow> error + graph \<times> (value_id \<times> value_id) option" where
  "prepare_node env g n =
     (let nkind = kind g n
      in if nkind = aten_copy_inplace then PrepareCopyForONNX env g n
         else if nkind = aten_index_put \<or> nkind = aten_index_put_inplace
         then (case PrepareIndexPutForONNX env g n of
                 Inl e \<Rightarrow> Inl e
               | Inr (g', p) \<Rightarrow> if nkind = aten_index_put then Inr (g', None) else Inr (g', p))
         else if nkind = aten_insert \<or> nkind = aten_append
         then PrepareListAppendAndInsertForONNX g n
         else if inplaceOpVariant env g n then PrepareInplaceOpsInBlocksForONNX env g n
         else if nkind = aten_pop then PrepareListPopForONNX g n
         else if nkind = aten_Delete then PrepareListDeleteForONNX g n
         else if nkind = aten_set_item then PrepareListSetItemForONNX g n
         else Inr (g, None))"

text \<open>
  The traversal of the blocks. The loop over the nodes of a block advances its iterator
  before it touches the node, and a conversion inserts nodes only in front of that
  iterator, so the loop visits the nodes the block has when the loop is entered. The
  pending work is a list: a block still to enter, a node still to visit, or the return
  node of a block still to correct.
\<close>

datatype work = Enter block_id | Visit node_id | Return block_id

partial_function (option) convert_work ::
  "collaborators \<Rightarrow> work list \<Rightarrow> graph \<Rightarrow> ValueTracker \<Rightarrow> (error + graph \<times> ValueTracker) option" where
  "convert_work env ws g vt =
     (case ws of
        [] \<Rightarrow> Some (Inr (g, vt))
      | Enter b # rest \<Rightarrow> convert_work env (map Visit (nodes g b) @ rest) g vt
      | Return b # rest \<Rightarrow> convert_work env rest g vt
      | Visit n # rest \<Rightarrow>
          if kind g n = prim_If \<or> kind g n = prim_Loop
          then convert_work env (map Enter (blocks g n) @ rest) g vt
          else (case prepare_node env g n of
                  Inl e \<Rightarrow> Some (Inl e)
                | Inr (g', None) \<Rightarrow> convert_work env rest g' vt
                | Inr (g', Some (orig_data, new_out)) \<Rightarrow>
                    (case registerSetValue (before_of env) g' vt orig_data new_out of
                       None \<Rightarrow> None
                     | Some (Inl e) \<Rightarrow> Some (Inl e)
                     | Some (Inr (g'', vt')) \<Rightarrow> convert_work env rest g'' vt')))"

declare convert_work.simps [code]

definition convertInplaceOpsAndTrackAlias ::
  "collaborators \<Rightarrow> block_id \<Rightarrow> graph \<Rightarrow> ValueTracker \<Rightarrow> (error + graph \<times> ValueTracker) option" where
  "convertInplaceOpsAndTrackAlias env b g vt = convert_work env [Enter b] g vt"

partial_function (option) correct_work ::
  "collaborators \<Rightarrow> ValueTracker \<Rightarrow> work list \<Rightarrow> graph \<Rightarrow> (error + graph) option" where
  "correct_work env vt ws g =
     (case ws of
        [] \<Rightarrow> Some (Inr g)
      | Enter b # rest \<Rightarrow> correct_work env vt (map Visit (nodes g b) @ [Return b] @ rest) g
      | Return b # rest \<Rightarrow>
          (case correctAliasReferenceForInputs (before_of env) vt (return_node g b) g of
             None \<Rightarrow> None
           | Some (Inl e) \<Rightarrow> Some (Inl e)
           | Some (Inr g') \<Rightarrow> correct_work env vt rest g')
      | Visit n # rest \<Rightarrow>
          (case correctAliasReferenceForInputs (before_of env) vt n g of
             None \<Rightarrow> None
           | Some (Inl e) \<Rightarrow> Some (Inl e)
           | Some (Inr g') \<Rightarrow>
               if kind g' n = prim_If \<or> kind g' n = prim_Loop
               then correct_work env vt (map Enter (blocks g' n) @ rest) g'
               else correct_work env vt rest g'))"

declare correct_work.simps [code]

definition correctAliasReferences ::
  "collaborators \<Rightarrow> ValueTracker \<Rightarrow> block_id \<Rightarrow> graph \<Rightarrow> (error + graph) option" where
  "correctAliasReferences env vt b g = correct_work env vt [Enter b] g"

text \<open>
  \<open>convertMutationForONNX\<close> after the attribute phase (which reads the module and does
  nothing on a graph without \<open>GetAttr\<close> and \<open>SetAttr\<close> nodes): the tracker is initialised,
  the in-place operators are converted, the alias references are corrected.
\<close>

definition convertMutationForONNX ::
  "collaborators \<Rightarrow> block_id \<Rightarrow> graph \<Rightarrow> (error + graph \<times> ValueTracker) option" where
  "convertMutationForONNX env b g =
     (case convertInplaceOpsAndTrackAlias env b g (init g b) of
        None \<Rightarrow> None
      | Some (Inl e) \<Rightarrow> Some (Inl e)
      | Some (Inr (g', vt)) \<Rightarrow>
          (case correctAliasReferences env vt b g' of
             None \<Rightarrow> None
           | Some (Inl e) \<Rightarrow> Some (Inl e)
           | Some (Inr g'') \<Rightarrow> Some (Inr (g'', vt))))"

subsection \<open>An in-place addition followed by a read\<close>


definition example_env :: collaborators where
  "example_env =
     \<lparr>before_of = isBefore 3,
      inplaceOpVariant = (\<lambda>g n. is_aten (kind g n) \<and> kind g n \<noteq> [] \<and> last (kind g n) = CHR ''_''),
      EncapsulatePatternIntoSubblock = (\<lambda>g n. None)\<rparr>"


subsection \<open>An in-place addition on a selected view\<close>




subsection \<open>Two branches that write to a list\<close>

text \<open>
  \<^verbatim>\<open>
  graph(%0 : Tensor[], %1 : bool, %2 : int, %3 : int):
                                     block 0: parameter node 0, return node 1
    prim::If(%1)                     node 2
      block 1:                       parameter node 3, return node 4
        aten::Delete(%0, %2)         node 5
      block 2:                       parameter node 6, return node 7
        aten::Delete(%0, %3)         node 8
        %4 = aten::append(%0, %2)    node 9
    %5 = aten::len(%0)               node 10
    return (%5)
  \<close>
  This is \<open>if c: del l[i] else: del l[j]; l.append(i)\<close> followed by a read of the list.
\<close>

definition del_graph :: graph where
  "del_graph =
     \<lparr>kind = (\<lambda>n. ''prim::Param'')
         (1 := ''prim::Return'', 4 := ''prim::Return'', 7 := ''prim::Return'',
          2 := ''prim::If'', 5 := ''aten::Delete'', 8 := ''aten::Delete'',
          9 := ''aten::append'', 10 := ''aten::len''),
      inputs = (\<lambda>n. [])(2 := [1], 5 := [0, 2], 8 := [0, 3], 9 := [0, 2], 10 := [0], 1 := [5]),
      outputs = (\<lambda>n. [])(0 := [0, 1, 2, 3], 9 := [4], 10 := [5]),
      blocks = (\<lambda>n. [])(2 := [1, 2]),
      owningBlock = (\<lambda>n. 0)(3 := 1, 4 := 1, 5 := 1, 6 := 2, 7 := 2, 8 := 2, 9 := 2),
      owningNode = (\<lambda>b. None)(1 := Some 2, 2 := Some 2),
      param_node = (\<lambda>b. 0)(1 := 3, 2 := 6),
      return_node = (\<lambda>b. 1)(1 := 4, 2 := 7),
      nodes = (\<lambda>b. [])(0 := [2, 10], 1 := [5], 2 := [8, 9]),
      node = (\<lambda>v. 0)(4 := 9, 5 := 10),
      next_unique = 6,
      next_node = 11,
      type_kind = (\<lambda>v. IntType)(0 := ListType, 1 := BoolType, 4 := ListType)\<rparr>"

text \<open>
  The states of the conversion of \<open>del_graph\<close>. The first \<open>Delete\<close> gets the output
  \<open>%6\<close>; the write is threaded out of the conditional, whose branches return \<open>%6\<close> and
  \<open>%0\<close> and which gets the output \<open>%7\<close>. The second \<open>Delete\<close> gets the output \<open>%8\<close>. The
  output \<open>%4\<close> of \<open>append\<close> is the last alias to be recorded.
\<close>

definition del_graph1 :: graph where
  "del_graph1 =
     del_graph\<lparr>outputs := (outputs del_graph)(5 := [6]),
               node := (node del_graph)(6 := 5),
               next_unique := 7,
               type_kind := (type_kind del_graph)(6 := ListType)\<rparr>"

definition del_graph2 :: graph where
  "del_graph2 =
     del_graph1\<lparr>inputs := (inputs del_graph1)(4 := [6], 7 := [0]),
                outputs := (outputs del_graph1)(2 := [7]),
                node := (node del_graph1)(7 := 2),
                next_unique := 8\<rparr>"

definition del_graph3 :: graph where
  "del_graph3 =
     del_graph2\<lparr>outputs := (outputs del_graph2)(8 := [8]),
                node := (node del_graph2)(8 := 8),
                next_unique := 9,
                type_kind := (type_kind del_graph2)(8 := ListType)\<rparr>"

definition del_tracker1 :: ValueTracker where
  "del_tracker1 =
     \<lparr>root_block = 0, alias_to_value = [0 \<mapsto> 0, 6 \<mapsto> 0, 7 \<mapsto> 0],
      value_to_sorted_aliases = [0 \<mapsto> Fork Black (Fork Red Leaf 0 Leaf) 6 (Fork Red Leaf 7 Leaf)]\<rparr>"

definition del_tracker2 :: ValueTracker where
  "del_tracker2 =
     \<lparr>root_block = 0, alias_to_value = [0 \<mapsto> 0, 6 \<mapsto> 0, 7 \<mapsto> 0, 8 \<mapsto> 0],
      value_to_sorted_aliases =
        [0 \<mapsto> Fork Black (Fork Black Leaf 0 Leaf) 6 (Fork Black Leaf 7 (Fork Red Leaf 8 Leaf))]\<rparr>"

definition del_tracker3 :: ValueTracker where
  "del_tracker3 =
     \<lparr>root_block = 0, alias_to_value = [0 \<mapsto> 0, 6 \<mapsto> 0, 7 \<mapsto> 0, 8 \<mapsto> 0, 4 \<mapsto> 0],
      value_to_sorted_aliases =
        [0 \<mapsto> Fork Black (Fork Black Leaf 0 (Fork Red Leaf 4 Leaf)) 6
                (Fork Black Leaf 7 (Fork Red Leaf 8 Leaf))]\<rparr>"

section \<open>The pre-pass on mutated block inputs\<close>

text \<open>
  A use of a value is a node with the offset of the input slot that holds the value. The
  use list of a value is read off the inputs of the nodes of the arena, by node handle
  and offset.
\<close>

type_synonym use = "node_id \<times> nat"

definition uses :: "graph \<Rightarrow> value_id \<Rightarrow> use list" where
  "uses g v =
     concat (map (\<lambda>m. map (Pair m) (filter (\<lambda>i. inputs g m ! i = v) [0 ..< length (inputs g m)]))
               [0 ..< next_node g])"

text \<open>
  \<open>addDummyClone\<close>: a copy of \<open>orig_data\<close>, put before the reference node or at the start
  of its block. A list is copied by \<open>aten::list\<close>; a tensor, an int, a float or a bool by
  \<open>aten::clone\<close> with a \<open>None\<close> constant in front of it; for any other type the answer
  is the null pointer.
\<close>

definition addDummyClone :: "graph \<Rightarrow> value_id \<Rightarrow> bool \<Rightarrow> node_id \<Rightarrow> node_id option \<times> graph" where
  "addDummyClone g orig_data insert_before referenceNode =
     (if type_kind g orig_data = ListType
      then
        (let (newNode, g1) = create g aten_list 1;
             g2 = addInput g1 newNode orig_data;
             g3 = setType g2 (next_unique g) (type_kind g2 orig_data);
             g4 = (if insert_before then insertBefore g3 newNode referenceNode
                   else prependNode g3 (owningBlock g3 referenceNode) newNode)
         in (Some newNode, g4))
      else if type_kind g orig_data = TensorType \<or> type_kind g orig_data = IntType \<or>
              type_kind g orig_data = FloatType \<or> type_kind g orig_data = BoolType
      then
        (let (noneNode, g1) = create g prim_Constant 1;
             g2 = setType g1 (next_unique g) NoneType;
             (newNode, g3) = create g2 aten_clone 1;
             g4 = addInput g3 newNode orig_data;
             g5 = addInput g4 newNode (next_unique g);
             g6 = setType g5 (next_unique g2) (type_kind g5 orig_data);
             g7 = (if insert_before then insertBefore g6 newNode referenceNode
                   else prependNode g6 (owningBlock g6 referenceNode) newNode);
             g8 = insertBefore g7 noneNode newNode
         in (Some newNode, g8))
      else (None, g))"

text \<open>
  \<open>Value::replaceAllUsesAfterNodeWith(node, newValue)\<close> of the IR header: the uses whose
  user is after \<open>node\<close> are rewired. The order of the nodes is the parameter \<open>bef\<close>.
\<close>

definition replaceAllUsesAfterNodeWith ::
  "before \<Rightarrow> graph \<Rightarrow> value_id \<Rightarrow> node_id \<Rightarrow> value_id \<Rightarrow> graph" where
  "replaceAllUsesAfterNodeWith bef g old_v n new_v =
     g\<lparr>inputs := (\<lambda>m. if bef g n m then map (\<lambda>v. if v = old_v then new_v else v) (inputs g m)
                        else inputs g m)\<rparr>"

text \<open>\<open>std::find\<close> on the inputs of a node, as the index of the first match.\<close>

fun find_first :: "'a \<Rightarrow> 'a list \<Rightarrow> nat option" where
  "find_first x [] = None"
| "find_first x (y # ys) = (if x = y then Some 0 else map_option Suc (find_first x ys))"

text \<open>
  The body of the loop of \<open>PrepareForRemoveMutations\<close> over the uses of a block input. The
  warning written to the error stream is kept as the kind of the node and the input it
  names.
\<close>

type_synonym warning = "symbol \<times> value_id"

definition prepare_use ::
  "collaborators \<Rightarrow> block_id \<Rightarrow> value_id \<Rightarrow> use \<Rightarrow> graph \<times> warning list
     \<Rightarrow> error + graph \<times> warning list" where
  "prepare_use env b input u s =
     (let g = fst s; log = snd s; n = fst u
      in if \<not> inplaceOpVariant env g n then Inr (g, log)
         else case find_first input (inputs g n) of
                None \<Rightarrow> Inr (g, log)
              | Some index \<Rightarrow>
                  (let log' = log @ [(kind g n, input)];
                       (newNode, g1) = addDummyClone g input False (return_node g b)
                   in case newNode of
                        None \<Rightarrow> Inl InternalAssert
                      | Some c \<Rightarrow>
                          (case output_of g1 c of
                             Inl e \<Rightarrow> Inl e
                           | Inr out \<Rightarrow>
                               (case replaceInput g1 n index out of
                                  Inl e \<Rightarrow> Inl e
                                | Inr g2 \<Rightarrow>
                                    Inr (replaceAllUsesAfterNodeWith (before_of env) g2 input n out,
                                         log')))))"

text \<open>
  The loop over the uses of one input runs on the use list the input has when the loop
  begins; the loop over the inputs of the block reads the use list of each input in the
  graph left by the inputs before it.
\<close>

fun prepare_uses ::
  "collaborators \<Rightarrow> block_id \<Rightarrow> value_id \<Rightarrow> use list \<Rightarrow> graph \<times> warning list
     \<Rightarrow> error + graph \<times> warning list" where
  "prepare_uses env b input [] s = Inr s"
| "prepare_uses env b input (u # us) s =
     (case prepare_use env b input u s of
        Inl e \<Rightarrow> Inl e
      | Inr s' \<Rightarrow> prepare_uses env b input us s')"

fun prepare_inputs ::
  "collaborators \<Rightarrow> block_id \<Rightarrow> value_id list \<Rightarrow> graph \<times> warning list
     \<Rightarrow> error + graph \<times> warning list" where
  "prepare_inputs env b [] s = Inr s"
| "prepare_inputs env b (input # rest) s =
     (case prepare_uses env b input (uses (fst s) input) s of
        Inl e \<Rightarrow> Inl e
      | Inr s' \<Rightarrow> prepare_inputs env b rest s')"

text \<open>
  \<open>PrepareForRemoveMutations\<close>: the blocks of the nodes of \<open>b\<close> first, then the inputs of
  \<open>b\<close>. The pending work is a list: a block still to enter, a node whose blocks are still
  to enter, or a block whose inputs are still to be looked at.
\<close>

partial_function (option) prepare_work ::
  "collaborators \<Rightarrow> work list \<Rightarrow> graph \<times> warning list \<Rightarrow> (error + graph \<times> warning list) option" where
  "prepare_work env ws s =
     (case ws of
        [] \<Rightarrow> Some (Inr s)
      | Enter b # rest \<Rightarrow> prepare_work env (map Visit (nodes (fst s) b) @ [Return b] @ rest) s
      | Visit n # rest \<Rightarrow> prepare_work env (map Enter (blocks (fst s) n) @ rest) s
      | Return b # rest \<Rightarrow>
          (case prepare_inputs env b (block_inputs (fst s) b) s of
             Inl e \<Rightarrow> Some (Inl e)
           | Inr s' \<Rightarrow> prepare_work env rest s'))"

declare prepare_work.simps [code]

definition PrepareForRemoveMutations ::
  "collaborators \<Rightarrow> block_id \<Rightarrow> graph \<Rightarrow> (error + graph \<times> warning list) option" where
  "PrepareForRemoveMutations env b g = prepare_work env [Enter b] (g, [])"

text \<open>
  \<open>RemoveInplaceOpsForONNX\<close>. The implicit cast of the binary in-place operators and the
  two passes of the mutation remover are not among the sources; they are parameters that
  take a graph to a graph. The root block of a graph is block 0.
\<close>

record passes =
  ImplicitCastForBinaryInplaceOps :: "graph \<Rightarrow> graph"
  RemoveTensorMutation :: "graph \<Rightarrow> graph"
  RemoveListMutation :: "graph \<Rightarrow> graph"

definition RemoveInplaceOpsForONNX ::
  "passes \<Rightarrow> collaborators \<Rightarrow> graph \<Rightarrow> (error + graph \<times> ValueTracker) option" where
  "RemoveInplaceOpsForONNX ps env g =
     (case PrepareForRemoveMutations env 0 (ImplicitCastForBinaryInplaceOps ps g) of
        None \<Rightarrow> None
      | Some (Inl e) \<Rightarrow> Some (Inl e)
      | Some (Inr (g1, log)) \<Rightarrow>
          convertMutationForONNX env 0 (RemoveListMutation ps (RemoveTensorMutation ps g1)))"

subsection \<open>A graph that zeroes its input in place\<close>

text \<open>
  \<^verbatim>\<open>
  graph(%0 : Tensor):              block 0: parameter node 0, return node 1
    %1 : Tensor = aten::zero_(%0)  node 2
    %2 : Tensor = aten::neg(%0)    node 3
    return (%2)
  \<close>
  \<open>zero_graph\<close> is the example of the source comment, followed by a read of the input.
  In \<open>opaque_graph\<close> the input has a type that is neither a list nor a tensor nor a scalar.
\<close>

definition zero_graph :: graph where
  "zero_graph =
     \<lparr>kind = (\<lambda>n. ''prim::Param'')
         (1 := ''prim::Return'', 2 := ''aten::zero_'', 3 := ''aten::neg''),
      inputs = (\<lambda>n. [])(2 := [0], 3 := [0], 1 := [2]),
      outputs = (\<lambda>n. [])(0 := [0], 2 := [1], 3 := [2]),
      blocks = (\<lambda>n. []),
      owningBlock = (\<lambda>n. 0),
      owningNode = (\<lambda>b. None),
      param_node = (\<lambda>b. 0),
      return_node = (\<lambda>b. 1),
      nodes = (\<lambda>b. [])(0 := [2, 3]),
      node = (\<lambda>v. 0)(1 := 2, 2 := 3),
      next_unique = 3,
      next_node = 4,
      type_kind = (\<lambda>v. TensorType)\<rparr>"

definition opaque_graph :: graph where
  "opaque_graph = zero_graph\<lparr>type_kind := (type_kind zero_graph)(0 := OtherType)\<rparr>"

text \<open>
  \<^verbatim>\<open>
  graph(%0 : Tensor[], %1 : Tensor[]):      block 0: parameter node 0, return node 1
    %2 : Tensor[] = aten::add_(%0, %1)      node 2
    return (%2)
  \<close>
  In \<open>extend_graph\<close> the mutated input is a list.
\<close>

definition extend_graph :: graph where
  "extend_graph =
     \<lparr>kind = (\<lambda>n. ''prim::Param'')(1 := ''prim::Return'', 2 := ''aten::add_''),
      inputs = (\<lambda>n. [])(2 := [0, 1], 1 := [2]),
      outputs = (\<lambda>n. [])(0 := [0, 1], 2 := [2]),
      blocks = (\<lambda>n. []),
      owningBlock = (\<lambda>n. 0),
      owningNode = (\<lambda>b. None),
      param_node = (\<lambda>b. 0),
      return_node = (\<lambda>b. 1),
      nodes = (\<lambda>b. [])(0 := [2]),
      node = (\<lambda>v. 0)(2 := 2),
      next_unique = 3,
      next_node = 3,
      type_kind = (\<lambda>v. ListType)\<rparr>"

subsection \<open>A graph that pops from its list input\<close>

text \<open>
  \<^verbatim>\<open>
  graph(%0 : Tensor[], %1 : int):         block 0: parameter node 0, return node 1
    %2 : Tensor = aten::pop(%0, %1)       node 2
    %3 : int = aten::len(%0)              node 3
    return (%2, %3)
  \<close>
  \<open>no_passes\<close> is the instance of the missing passes that leaves a graph as it is.
\<close>

definition pop_graph :: graph where
  "pop_graph =
     \<lparr>kind = (\<lambda>n. ''prim::Param'')
         (1 := ''prim::Return'', 2 := ''aten::pop'', 3 := ''aten::len''),
      inputs = (\<lambda>n. [])(2 := [0, 1], 3 := [0], 1 := [2, 3]),
      outputs = (\<lambda>n. [])(0 := [0, 1], 2 := [2], 3 := [3]),
      blocks = (\<lambda>n. []),
      owningBlock = (\<lambda>n. 0),
      owningNode = (\<lambda>b. None),
      param_node = (\<lambda>b. 0),
      return_node = (\<lambda>b. 1),
      nodes = (\<lambda>b. [])(0 := [2, 3]),
      node = (\<lambda>v. 0)(2 := 2, 3 := 3),
      next_unique = 4,
      next_node = 4,
      type_kind = (\<lambda>v. IntType)(0 := ListType, 2 := TensorType)\<rparr>"

definition no_passes :: passes where
  "no_passes =
     \<lparr>ImplicitCastForBinaryInplaceOps = (\<lambda>g. g),
      RemoveTensorMutation = (\<lambda>g. g),
      RemoveListMutation = (\<lambda>g. g)\<rparr>"

section \<open>The differentiable-subgraph pass\<close>

subsection \<open>The dependency graph\<close>

text \<open>
  Modelled from the spec: the dynamic DAG, whose header is not among the sources. A vertex
  wraps one or more nodes (\<open>rdata\<close>), carries an ordinal giving its position in a
  topological order, and has in- and out-edge sets to other vertices.
  \<open>maybe_vertices()\<close> lists the vertices by ordinal, with holes where a vertex was
  absorbed by a contraction. Vertex pointers become handles into a store. The ordinal is
  a \<open>size_t\<close>, a 64-bit word: the subtraction on ordinals wraps around.
\<close>

type_synonym vertex_id = nat

record Vertex =
  rdata :: "node_id list"
  ord :: "64 word"
  in_edges :: "vertex_id list"
  out_edges :: "vertex_id list"

record DynamicDAG =
  maybe_vertices :: "vertex_id option list"
  vertex :: "vertex_id \<Rightarrow> Vertex"

text \<open>
  \<open>contractEdge(producer, consumer)\<close> is a parameter: it answers whether the contraction
  succeeded and gives the dependency graph after the attempt.
\<close>

type_synonym contract = "DynamicDAG \<Rightarrow> vertex_id \<Rightarrow> vertex_id \<Rightarrow> bool \<times> DynamicDAG"

text \<open>\<open>isDifferentiable(Node*)\<close> of the autodiff header, not among the sources: a parameter.\<close>

type_synonym differentiable = "graph \<Rightarrow> node_id \<Rightarrow> bool"

definition shouldConsiderForMerge :: "differentiable \<Rightarrow> graph \<Rightarrow> Vertex \<Rightarrow> error + bool" where
  "shouldConsiderForMerge diff g v =
     (if length (rdata v) \<ge> 2 then Inr True
      else case rdata v of
             [n] \<Rightarrow> if kind g n = prim_Constant then Inr False else Inr (diff g n)
           | _ \<Rightarrow> Inl InternalAssert)"

text \<open>
  Modelled from the spec: \<open>sort(vertexList)\<close> stable-sorts vertices by current topological
  ordinal.
\<close>

definition dag_sort :: "DynamicDAG \<Rightarrow> vertex_id list \<Rightarrow> vertex_id list" where
  "dag_sort dag vs = sort_key (\<lambda>v. ord (vertex dag v)) vs"

text \<open>
  The inner loop of \<open>find_differentiable_groups\<close> over the in-edges of the consumer, given
  in the order of the reverse iterator. It answers \<open>changed\<close> and the dependency graph.
\<close>

fun try_producers ::
  "contract \<Rightarrow> differentiable \<Rightarrow> graph \<Rightarrow> 64 word \<Rightarrow> nat \<Rightarrow> DynamicDAG \<Rightarrow> vertex_id \<Rightarrow> vertex_id list
     \<Rightarrow> error + bool \<times> DynamicDAG" where
  "try_producers contractEdge diff g distance_threshold producer_outedge_threshold dag consumer [] =
     Inr (False, dag)"
| "try_producers contractEdge diff g distance_threshold producer_outedge_threshold dag consumer
     (producer # rest) =
     (if ord (vertex dag consumer) - ord (vertex dag producer) > distance_threshold
      then try_producers contractEdge diff g distance_threshold producer_outedge_threshold dag consumer rest
      else if length (out_edges (vertex dag producer)) > producer_outedge_threshold
      then try_producers contractEdge diff g distance_threshold producer_outedge_threshold dag consumer rest
      else case shouldConsiderForMerge diff g (vertex dag producer) of
             Inl e \<Rightarrow> Inl e
           | Inr False \<Rightarrow>
               try_producers contractEdge diff g distance_threshold producer_outedge_threshold dag consumer rest
           | Inr True \<Rightarrow>
               (case contractEdge dag producer consumer of
                  (True, dag') \<Rightarrow> Inr (True, dag')
                | (False, dag') \<Rightarrow>
                    try_producers contractEdge diff g distance_threshold producer_outedge_threshold
                      dag' consumer rest))"

text \<open>
  One round of the outer loop at ordinal \<open>ord\<close>: the dependency graph and the ordinal of
  the next round. \<open>maybe_vertices().at(ord)\<close> is a checked access.
\<close>

definition merge_round ::
  "contract \<Rightarrow> differentiable \<Rightarrow> graph \<Rightarrow> 64 word \<Rightarrow> nat \<Rightarrow> DynamicDAG \<Rightarrow> int \<Rightarrow> error + DynamicDAG \<times> int" where
  "merge_round contractEdge diff g distance_threshold producer_outedge_threshold dag i =
     (if nat i \<ge> length (maybe_vertices dag) then Inl OutOfRange
      else case maybe_vertices dag ! nat i of
             None \<Rightarrow> Inr (dag, i - 1)
           | Some consumer \<Rightarrow>
               (case shouldConsiderForMerge diff g (vertex dag consumer) of
                  Inl e \<Rightarrow> Inl e
                | Inr False \<Rightarrow> Inr (dag, i - 1)
                | Inr True \<Rightarrow>
                    (case try_producers contractEdge diff g distance_threshold
                            producer_outedge_threshold dag consumer
                            (rev (dag_sort dag (in_edges (vertex dag consumer)))) of
                       Inl e \<Rightarrow> Inl e
                     | Inr (changed, dag') \<Rightarrow> Inr (dag', if changed then i else i - 1))))"

text \<open>
  The outer loop \<open>while (ord >= 0)\<close>. It ends only when contractions stop succeeding, so
  not returning is the value \<open>None\<close>.
\<close>

partial_function (option) merge_rounds ::
  "contract \<Rightarrow> differentiable \<Rightarrow> graph \<Rightarrow> 64 word \<Rightarrow> nat \<Rightarrow> DynamicDAG \<Rightarrow> int \<Rightarrow> (error + DynamicDAG) option" where
  "merge_rounds contractEdge diff g distance_threshold producer_outedge_threshold dag i =
     (if i \<ge> 0
      then (case merge_round contractEdge diff g distance_threshold producer_outedge_threshold dag i of
              Inl e \<Rightarrow> Some (Inl e)
            | Inr (dag', i') \<Rightarrow>
                merge_rounds contractEdge diff g distance_threshold producer_outedge_threshold dag' i')
      else Some (Inr dag))"

declare merge_rounds.simps [code]

definition find_differentiable_groups ::
  "contract \<Rightarrow> differentiable \<Rightarrow> graph \<Rightarrow> 64 word \<Rightarrow> nat \<Rightarrow> DynamicDAG \<Rightarrow> (error + DynamicDAG) option" where
  "find_differentiable_groups contractEdge diff g distance_threshold producer_outedge_threshold dep_graph =
     merge_rounds contractEdge diff g distance_threshold producer_outedge_threshold dep_graph
       (int (length (maybe_vertices dep_graph)) - 1)"

text \<open>The defaults of the two thresholds.\<close>

definition default_distance_threshold :: "64 word" where "default_distance_threshold = 64"
definition default_producer_outedge_threshold :: nat where "default_producer_outedge_threshold = 16"

subsection \<open>A dependency graph for a chain of three nodes\<close>

text \<open>
  \<^verbatim>\<open>
  graph(%0):                       block 0: parameter node 0, return node 1
    %1 = aten::relu(%0)            node 2
    %2 = aten::add(%1, %1)         node 3
    %3 = aten::tanh(%2)            node 4
    return (%3)
  \<close>
  In \<open>far_dag\<close> the three nodes are the vertices 0, 1 and 2, at the ordinals 0, 69 and 70
  (the slots between are holes left by earlier contractions).

  Modelled from the spec: a successful \<open>contractEdge\<close> merges the producer into the
  consumer; the combined vertex keeps the union of in- and out-edges minus the
  now-internal edge, and the slot of the producer becomes a hole. \<open>absorb\<close> is that
  effect; \<open>contract_always\<close> is the instance of the parameter that always succeeds, which
  is legal on a chain.
\<close>

definition chain_graph :: graph where
  "chain_graph =
     \<lparr>kind = (\<lambda>n. ''prim::Param'')
         (1 := ''prim::Return'', 2 := ''aten::relu'', 3 := ''aten::add'', 4 := ''aten::tanh''),
      inputs = (\<lambda>n. [])(2 := [0], 3 := [1, 1], 4 := [2], 1 := [3]),
      outputs = (\<lambda>n. [])(0 := [0], 2 := [1], 3 := [2], 4 := [3]),
      blocks = (\<lambda>n. []),
      owningBlock = (\<lambda>n. 0),
      owningNode = (\<lambda>b. None),
      param_node = (\<lambda>b. 0),
      return_node = (\<lambda>b. 1),
      nodes = (\<lambda>b. [])(0 := [2, 3, 4]),
      node = (\<lambda>v. 0)(1 := 2, 2 := 3, 3 := 4),
      next_unique = 4,
      next_node = 5,
      type_kind = (\<lambda>v. TensorType)\<rparr>"

definition far_dag :: DynamicDAG where
  "far_dag =
     \<lparr>maybe_vertices = [Some 0] @ replicate 68 None @ [Some 1, Some 2],
      vertex = (\<lambda>v. \<lparr>rdata = [], ord = 0, in_edges = [], out_edges = []\<rparr>)
        (0 := \<lparr>rdata = [2], ord = 0, in_edges = [], out_edges = [1]\<rparr>,
         1 := \<lparr>rdata = [3], ord = 69, in_edges = [0], out_edges = [2]\<rparr>,
         2 := \<lparr>rdata = [4], ord = 70, in_edges = [1, 0], out_edges = []\<rparr>)\<rparr>"

definition redirect :: "vertex_id \<Rightarrow> vertex_id \<Rightarrow> vertex_id list \<Rightarrow> vertex_id list" where
  "redirect producer consumer es = remdups (map (\<lambda>e. if e = producer then consumer else e) es)"

definition absorb :: "DynamicDAG \<Rightarrow> vertex_id \<Rightarrow> vertex_id \<Rightarrow> DynamicDAG" where
  "absorb dag producer consumer =
     (let p = vertex dag producer; c = vertex dag consumer;
          merged = c\<lparr>rdata := rdata c @ rdata p,
                     in_edges := removeAll consumer (removeAll producer (remdups (in_edges c @ in_edges p))),
                     out_edges := removeAll consumer (removeAll producer (remdups (out_edges c @ out_edges p)))\<rparr>
      in \<lparr>maybe_vertices = map (\<lambda>m. if m = Some producer then None else m) (maybe_vertices dag),
          vertex = (\<lambda>v. (vertex dag v)\<lparr>in_edges := redirect producer consumer (in_edges (vertex dag v)),
                                         out_edges := redirect producer consumer (out_edges (vertex dag v))\<rparr>)
                   (consumer := merged)\<rparr>)"

definition contract_always :: contract where
  "contract_always dag producer consumer = (True, absorb dag producer consumer)"

definition always_differentiable :: differentiable where
  "always_differentiable g n = True"

section \<open>Properties of the alias tracker\<close>

subsection \<open>The ordered set\<close>

lemma in_order_rebalance_left:
  "in_order (fst (rebalance_left c ls v r)) = in_order (fst ls) @ v # in_order r"
  by (cases "(c, ls, v, r)" rule: rebalance_left.cases)
     (auto split: rb_tree.splits colour.splits side.splits)

lemma in_order_rebalance_right:
  "in_order (fst (rebalance_right c l v rs)) = in_order l @ v # in_order (fst rs)"
  by (cases "(c, l, v, rs)" rule: rebalance_right.cases)
     (auto split: rb_tree.splits colour.splits side.splits)

lemma in_order_blacken: "in_order (blacken t) = in_order t"
  by (cases t) simp_all

lemma set_rb_ins: "set (in_order (fst (rb_ins lt k t))) = insert k (set (in_order t))"
  by (induction t) (auto simp: in_order_rebalance_left in_order_rebalance_right)


lemma set_insert_keeps: "set (in_order t) \<subseteq> set (in_order (set_insert lt k t))"
  by (auto simp: set_insert_def in_order_blacken set_rb_ins split: option.splits)








subsection \<open>Evaluating the tracker\<close>

lemmas tracker_defs =
  init_def record_alias_def root_of_def track_root_def insert_alias_def set_alias_def
  sorted_aliases_def alias_set_def set_insert_def aliasComp_def isBefore_def topo_position_def Let_def registered_def
  block_outputs_def thread_if_def thread_loop_def registerOutput_def addInput_def
  addOutput_def block_addInput_def prim_If_def prim_Loop_def

lemma if_graph_sel:
  "kind if_graph = (\<lambda>n. ''prim::Param'')
         (1 := ''prim::Return'', 5 := ''prim::Return'', 8 := ''prim::Return'',
          2 := ''aten::add'', 3 := ''prim::If'', 6 := ''aten::mul'', 9 := ''aten::neg'',
          10 := ''aten::sub'')"
  "inputs if_graph = (\<lambda>n. [])(2 := [0, 1], 3 := [2], 6 := [0, 1], 9 := [0], 10 := [0, 1], 1 := [6])"
  "outputs if_graph = (\<lambda>n. [])(0 := [0, 1, 2], 2 := [3], 6 := [4], 9 := [5], 10 := [6])"
  "blocks if_graph = (\<lambda>n. [])(3 := [1, 2])"
  "owningBlock if_graph = (\<lambda>n. 0)(4 := 1, 5 := 1, 6 := 1, 7 := 2, 8 := 2, 9 := 2)"
  "owningNode if_graph = (\<lambda>b. None)(1 := Some 3, 2 := Some 3)"
  "param_node if_graph = (\<lambda>b. 0)(1 := 4, 2 := 7)"
  "return_node if_graph = (\<lambda>b. 1)(1 := 5, 2 := 8)"
  "nodes if_graph = (\<lambda>b. [])(0 := [2, 3, 10], 1 := [6], 2 := [9])"
  "node if_graph = (\<lambda>v. 0)(3 := 2, 4 := 6, 5 := 9, 6 := 10)"
  "next_unique if_graph = 7"
  by (simp_all add: if_graph_def)

lemma observed_result:
  "map_option (map_sum f h) r = Some (Inr y) \<Longrightarrow> \<exists>x. r = Some (Inr x) \<and> h x = y"
proof (cases r)
  case None
  then show "map_option (map_sum f h) r = Some (Inr y) \<Longrightarrow> ?thesis" by simp
next
  case (Some s)
  then show "map_option (map_sum f h) r = Some (Inr y) \<Longrightarrow> ?thesis" by (cases s) auto
qed

text \<open>The tracker states used below are the ones the tracker computes.\<close>

lemma if_graph_first_write:
  "registerSetValue (isBefore 3) if_graph (init if_graph 0) 0 3 = Some (Inr (if_graph, if_tracker1))"
  apply (subst registerSetValue.simps)
  apply (simp add: if_graph_sel if_tracker1_def tracker_defs eval_nat_numeral)
  done

lemma if_graph_second_write:
  "registerSetValue (isBefore 3) if_graph if_tracker1 0 4 = Some (Inr (if_graph_threaded, if_tracker))"
  apply (subst registerSetValue.simps)
  apply (simp add: if_graph_sel if_tracker1_def tracker_defs isAncestor.simps eval_nat_numeral)
  apply (subst registerSetValue.simps)
  apply (simp add: if_graph_threaded_def if_graph_sel if_tracker_def tracker_defs eval_nat_numeral)
  done

lemma wf_blocks_if_graph_threaded: "wf_blocks if_depth if_graph_threaded"
  by (simp add: wf_blocks_def if_graph_threaded_def if_graph_sel if_depth_def)

subsection \<open>Values the tracker has never seen\<close>

lemma untracked_find:
  "alias_to_value vt v = None \<Longrightarrow> findAliasForValueAtNode bef g vt v n = Some (Inr v)"
  by (simp add: findAliasForValueAtNode_def)

lemma correct_inputs_from_untracked:
  "correct_inputs_from bef vt n i k g = Some (Inr g') \<Longrightarrow> i + k = length (inputs g n) \<Longrightarrow>
   length (inputs g' n) = length (inputs g n) \<and>
   (\<forall>j < i. inputs g' n ! j = inputs g n ! j) \<and>
   (\<forall>j. i \<le> j \<and> j < length (inputs g n) \<and> alias_to_value vt (inputs g n ! j) = None
        \<longrightarrow> inputs g' n ! j = inputs g n ! j)"
proof (induction k arbitrary: i g)
  case 0
  then show ?case by simp
next
  case (Suc k)
  let ?v = "inputs g n ! i"
  from Suc.prems(1) obtain al where
    f: "findAliasForValueAtNode bef g vt ?v n = Some (Inr al)"
    by (auto simp: Let_def split: bind_splits sum.splits)
  show ?case
  proof (cases "al = ?v")
    case True
    with Suc.prems f have "correct_inputs_from bef vt n (Suc i) k g = Some (Inr g')"
      by (simp add: Let_def)
    from Suc.IH[OF this] Suc.prems(2)
    have IH: "length (inputs g' n) = length (inputs g n)"
      "\<And>j. j < Suc i \<Longrightarrow> inputs g' n ! j = inputs g n ! j"
      "\<And>j. Suc i \<le> j \<Longrightarrow> j < length (inputs g n) \<Longrightarrow>
          alias_to_value vt (inputs g n ! j) = None \<Longrightarrow> inputs g' n ! j = inputs g n ! j"
      by simp_all
    show ?thesis
    proof (intro conjI allI impI)
      show "length (inputs g' n) = length (inputs g n)" by (rule IH(1))
    next
      fix j assume "j < i"
      then show "inputs g' n ! j = inputs g n ! j" using IH(2) by simp
    next
      fix j assume j: "i \<le> j \<and> j < length (inputs g n) \<and> alias_to_value vt (inputs g n ! j) = None"
      show "inputs g' n ! j = inputs g n ! j"
      proof (cases "j = i")
        case True
        then show ?thesis using IH(2) by simp
      next
        case False
        with j have "Suc i \<le> j" by simp
        then show ?thesis using IH(3) j by simp
      qed
    qed
  next
    case False
    let ?g1 = "g\<lparr>inputs := (inputs g)(n := (inputs g n)[i := al])\<rparr>"
    from False Suc.prems f have r: "correct_inputs_from bef vt n (Suc i) k ?g1 = Some (Inr g')"
      by (simp add: Let_def replaceInput_def)
    have len: "Suc i + k = length (inputs ?g1 n)" using Suc.prems(2) by simp
    note IH = Suc.IH[OF r len]
    have untr: "alias_to_value vt ?v \<noteq> None"
      using False f untracked_find[of vt ?v bef g n] by auto
    show ?thesis
    proof (intro conjI allI impI)
      show "length (inputs g' n) = length (inputs g n)" using IH by simp
    next
      fix j assume "j < i"
      then show "inputs g' n ! j = inputs g n ! j" using IH by simp
    next
      fix j assume j: "i \<le> j \<and> j < length (inputs g n) \<and> alias_to_value vt (inputs g n ! j) = None"
      with untr have "j \<noteq> i" by auto
      with j have "Suc i \<le> j" by simp
      with j IH show "inputs g' n ! j = inputs g n ! j" by simp
    qed
  qed
qed

lemma correct_inputs_from_all_untracked:
  "i + k = length (inputs g n) \<Longrightarrow> \<forall>v \<in> set (inputs g n). alias_to_value vt v = None \<Longrightarrow>
   correct_inputs_from bef vt n i k g = Some (Inr g)"
  by (induction k arbitrary: i) (simp_all add: untracked_find Let_def)

text \<open>
  Claim C9. A value that has no entry in \<open>alias_to_value_\<close> (no \<open>registerSetValue\<close> has
  recorded it) is returned unchanged by \<open>findAliasForValueAtNode\<close> at every node; so
  \<open>correctAliasReferenceForInputs\<close> leaves every input slot that holds such a value as it
  is, and returns the graph unchanged when no input of the node is tracked.
\<close>

theorem untracked_value_is_kept:
  "alias_to_value vt v = None \<Longrightarrow>
     findAliasForValueAtNode bef g vt v n = Some (Inr v) \<and>
     (\<forall>g' i. correctAliasReferenceForInputs bef vt n g = Some (Inr g') \<and>
             i < length (inputs g n) \<and> inputs g n ! i = v
         \<longrightarrow> inputs g' n ! i = v) \<and>
     ((\<forall>u \<in> set (inputs g n). alias_to_value vt u = None)
         \<longrightarrow> correctAliasReferenceForInputs bef vt n g = Some (Inr g))"
proof (intro conjI allI impI)
  assume "alias_to_value vt v = None"
  then show "findAliasForValueAtNode bef g vt v n = Some (Inr v)" by (rule untracked_find)
next
  fix g' i
  assume v: "alias_to_value vt v = None"
    and h: "correctAliasReferenceForInputs bef vt n g = Some (Inr g') \<and>
            i < length (inputs g n) \<and> inputs g n ! i = v"
  then have "correct_inputs_from bef vt n 0 (length (inputs g n)) g = Some (Inr g')"
    by (simp add: correctAliasReferenceForInputs_def)
  from correct_inputs_from_untracked[OF this] v h show "inputs g' n ! i = v" by simp
next
  assume "\<forall>u \<in> set (inputs g n). alias_to_value vt u = None"
  then show "correctAliasReferenceForInputs bef vt n g = Some (Inr g)"
    by (simp add: correctAliasReferenceForInputs_def correct_inputs_from_all_untracked)
qed

text \<open>
  In the graph with the conditional, node 10 reads \<open>%0\<close> (tracked) and \<open>%1\<close> (never
  registered): the first slot is rebound to the output \<open>%7\<close> of the conditional, the
  second keeps \<open>%1\<close>; node 3 reads only \<open>%2\<close> and is left alone.
\<close>

theorem untracked_value_is_kept_witness:
  "alias_to_value if_tracker 1 = None \<and>
   findAliasForValueAtNode (isBefore 3) if_graph_threaded if_tracker 1 10 = Some (Inr 1) \<and>
   (\<exists>g'. correctAliasReferenceForInputs (isBefore 3) if_tracker 10 if_graph_threaded = Some (Inr g') \<and>
         inputs if_graph_threaded 10 = [0, 1] \<and> inputs g' 10 = [7, 1]) \<and>
   inputs if_graph_threaded 3 = [2] \<and> alias_to_value if_tracker 2 = None \<and>
   correctAliasReferenceForInputs (isBefore 3) if_tracker 3 if_graph_threaded = Some (Inr if_graph_threaded)"
proof -
  have h: "alias_to_value if_tracker 1 = None" by (simp add: if_tracker_def)
  have h2: "alias_to_value if_tracker 2 = None" by (simp add: if_tracker_def)
  have i3: "inputs if_graph_threaded 3 = [2]" by (simp add: if_graph_threaded_def if_graph_sel)
  have run: "map_option (map_sum id (\<lambda>g'. inputs g' 10))
               (correctAliasReferenceForInputs (isBefore 3) if_tracker 10 if_graph_threaded)
             = Some (Inr [7, 1])"
    by code_simp
  from observed_result[OF run] obtain g' where
    g': "correctAliasReferenceForInputs (isBefore 3) if_tracker 10 if_graph_threaded = Some (Inr g')"
        "inputs g' 10 = [7, 1]"
    by auto
  have i10: "inputs if_graph_threaded 10 = [0, 1]" by (simp add: if_graph_threaded_def if_graph_sel)
  from untracked_value_is_kept[OF h, of "isBefore 3" if_graph_threaded 10]
  have a: "findAliasForValueAtNode (isBefore 3) if_graph_threaded if_tracker 1 10 = Some (Inr 1)"
    by simp
  from untracked_value_is_kept[OF h2, of "isBefore 3" if_graph_threaded 3] h2 i3
  have b: "correctAliasReferenceForInputs (isBefore 3) if_tracker 3 if_graph_threaded
             = Some (Inr if_graph_threaded)"
    by simp
  show ?thesis using h h2 i3 i10 g' a b by auto
qed

subsection \<open>The latest visible alias\<close>

lemma isAncestor_terminates:
  assumes "wf_blocks depth g"
  shows "\<exists>r. isAncestor g a b = Some r"
proof (induction "depth b" arbitrary: b rule: less_induct)
  case less
  show ?case
  proof (cases "owningNode g b")
    case None
    then show ?thesis by (subst isAncestor.simps) simp
  next
    case (Some n)
    with assms have "depth (owningBlock g n) < depth b" by (simp add: wf_blocks_def)
    from less[OF this] Some show ?thesis by (subst isAncestor.simps) auto
  qed
qed

text \<open>The loop keeps the last visible alias of the list, or the accumulator.\<close>

lemma find_last_alias_filter:
  assumes "wf_blocks depth g"
  shows "find_last_alias bef g n as acc =
         Some (case filter (visible bef g n) as of [] \<Rightarrow> acc | x # xs \<Rightarrow> Some (last (x # xs)))"
proof (induction as arbitrary: acc)
  case Nil
  show ?case by simp
next
  case (Cons a as)
  obtain r where r: "isAncestor g (owningBlock g (node g a)) (owningBlock g n) = Some r"
    using isAncestor_terminates[OF assms] by blast
  show ?case
    using r Cons
    by (cases r; cases "bef g (node g a) n") (auto simp: visible_def Let_def split: list.splits)
qed

lemma find_last_alias_visible:
  "find_last_alias bef g n as acc = Some (Some a) \<Longrightarrow>
     acc = Some a \<or> (a \<in> set as \<and> visible bef g n a)"
proof (induction as arbitrary: acc)
  case Nil
  then show ?case by simp
next
  case (Cons x as)
  then show ?case
    by (fastforce simp: visible_def Let_def split: if_splits bind_splits)
qed

lemma findAlias_result_visible:
  assumes "findAliasForValueAtNode bef g vt v n = Some (Inr r)" and "alias_to_value vt v \<noteq> None"
  shows "visible bef g n r"
proof -
  from assms obtain root_v aliases where
    "find_last_alias bef g n aliases None = Some (Some r)"
    by (auto simp: findAliasForValueAtNode_def split: option.splits bind_splits)
  from find_last_alias_visible[OF this] show ?thesis by simp
qed

lemma example_env_sel:
  "before_of example_env = isBefore 3"
  "inplaceOpVariant example_env =
     (\<lambda>g n. is_aten (kind g n) \<and> kind g n \<noteq> [] \<and> last (kind g n) = CHR ''_'')"
  "EncapsulatePatternIntoSubblock example_env = (\<lambda>g n. None)"
  by (simp_all add: example_env_def)

lemma del_graph_sel:
  "kind del_graph = (\<lambda>n. ''prim::Param'')
         (1 := ''prim::Return'', 4 := ''prim::Return'', 7 := ''prim::Return'',
          2 := ''prim::If'', 5 := ''aten::Delete'', 8 := ''aten::Delete'',
          9 := ''aten::append'', 10 := ''aten::len'')"
  "inputs del_graph = (\<lambda>n. [])(2 := [1], 5 := [0, 2], 8 := [0, 3], 9 := [0, 2], 10 := [0], 1 := [5])"
  "outputs del_graph = (\<lambda>n. [])(0 := [0, 1, 2, 3], 9 := [4], 10 := [5])"
  "blocks del_graph = (\<lambda>n. [])(2 := [1, 2])"
  "owningBlock del_graph = (\<lambda>n. 0)(3 := 1, 4 := 1, 5 := 1, 6 := 2, 7 := 2, 8 := 2, 9 := 2)"
  "owningNode del_graph = (\<lambda>b. None)(1 := Some 2, 2 := Some 2)"
  "param_node del_graph = (\<lambda>b. 0)(1 := 3, 2 := 6)"
  "return_node del_graph = (\<lambda>b. 1)(1 := 4, 2 := 7)"
  "nodes del_graph = (\<lambda>b. [])(0 := [2, 10], 1 := [5], 2 := [8, 9])"
  "node del_graph = (\<lambda>v. 0)(4 := 9, 5 := 10)"
  "next_unique del_graph = 6"
  "next_node del_graph = 11"
  "type_kind del_graph = (\<lambda>v. IntType)(0 := ListType, 1 := BoolType, 4 := ListType)"
  by (simp_all add: del_graph_def)

lemmas kind_defs =
  aten_copy_inplace_def aten_index_put_def aten_index_put_inplace_def aten_insert_def
  aten_append_def aten_pop_def aten_Delete_def aten_set_item_def prim_If_def prim_Loop_def

lemma del_first_delete:
  "prepare_node example_env del_graph 5 = Inr (del_graph1, Some (0, 6))"
  by (simp add: prepare_node_def PrepareListDeleteForONNX_def kind_defs example_env_sel is_aten_def
      addOutput_def output_of_def input_at_def setType_def del_graph_sel del_graph1_def Let_def)

lemma del_first_write:
  "registerSetValue (isBefore 3) del_graph1 (init del_graph 0) 0 6 = Some (Inr (del_graph2, del_tracker1))"
  apply (subst registerSetValue.simps)
  apply (simp add: del_graph1_def del_graph_sel tracker_defs isAncestor.simps eval_nat_numeral)
  apply (subst registerSetValue.simps)
  apply (simp add: del_graph2_def del_graph1_def del_graph_sel del_tracker1_def tracker_defs eval_nat_numeral)
  done

lemma del_second_delete:
  "prepare_node example_env del_graph2 8 = Inr (del_graph3, Some (0, 8))"
  by (simp add: prepare_node_def PrepareListDeleteForONNX_def kind_defs example_env_sel is_aten_def
      addOutput_def output_of_def input_at_def setType_def del_graph_sel del_graph1_def
      del_graph2_def del_graph3_def Let_def)

lemma del_second_write:
  "registerSetValue (isBefore 3) del_graph3 del_tracker1 0 8 = Some (Inr (del_graph3, del_tracker2))"
  apply (subst registerSetValue.simps)
  apply (simp add: del_graph3_def del_graph2_def del_graph1_def del_graph_sel del_tracker1_def
      del_tracker2_def tracker_defs eval_nat_numeral)
  done

lemma del_append:
  "prepare_node example_env del_graph3 9 = Inr (del_graph3, Some (0, 4))"
  by (simp add: prepare_node_def PrepareListAppendAndInsertForONNX_def kind_defs example_env_sel
      is_aten_def output_of_def input_at_def del_graph_sel del_graph1_def
      del_graph2_def del_graph3_def Let_def)

lemma del_third_write:
  "registerSetValue (isBefore 3) del_graph3 del_tracker2 0 4 = Some (Inr (del_graph3, del_tracker3))"
  apply (subst registerSetValue.simps)
  apply (simp add: del_graph3_def del_graph2_def del_graph1_def del_graph_sel del_tracker2_def
      del_tracker3_def tracker_defs eval_nat_numeral)
  done

lemma del_len:
  "prepare_node example_env del_graph3 10 = Inr (del_graph3, None)"
  by (simp add: prepare_node_def kind_defs example_env_sel
      is_aten_def del_graph_sel del_graph1_def del_graph2_def del_graph3_def Let_def)


lemma del_graph123_sel:
  "kind del_graph1 = kind del_graph" "kind del_graph2 = kind del_graph" "kind del_graph3 = kind del_graph"
  "nodes del_graph1 = nodes del_graph" "nodes del_graph2 = nodes del_graph" "nodes del_graph3 = nodes del_graph"
  "blocks del_graph1 = blocks del_graph" "blocks del_graph2 = blocks del_graph" "blocks del_graph3 = blocks del_graph"
  by (simp_all add: del_graph1_def del_graph2_def del_graph3_def)

lemma del_conversion:
  "convertInplaceOpsAndTrackAlias example_env 0 del_graph (init del_graph 0)
     = Some (Inr (del_graph3, del_tracker3))"
  unfolding convertInplaceOpsAndTrackAlias_def
  apply (subst convert_work.simps, simp add: del_graph_sel)
  apply (subst convert_work.simps, simp add: del_graph_sel prim_If_def prim_Loop_def)
  apply (subst convert_work.simps, simp add: del_graph_sel)
  apply (subst convert_work.simps,
         simp add: del_graph_sel(1) prim_If_def prim_Loop_def del_first_delete example_env_sel
           del_first_write)
  apply (subst convert_work.simps, simp add: del_graph123_sel del_graph_sel)
  apply (subst convert_work.simps,
         simp add: del_graph123_sel del_graph_sel(1) prim_If_def prim_Loop_def del_second_delete
           example_env_sel del_second_write)
  apply (subst convert_work.simps,
         simp add: del_graph123_sel del_graph_sel(1) prim_If_def prim_Loop_def del_append
           example_env_sel del_third_write)
  apply (subst convert_work.simps,
         simp add: del_graph123_sel del_graph_sel(1) prim_If_def prim_Loop_def del_len)
  apply (subst convert_work.simps, simp)
  done

lemma del_graph3_sel:
  "owningBlock del_graph3 = (\<lambda>n. 0)(3 := 1, 4 := 1, 5 := 1, 6 := 2, 7 := 2, 8 := 2, 9 := 2)"
  "owningNode del_graph3 = (\<lambda>b. None)(1 := Some 2, 2 := Some 2)"
  "param_node del_graph3 = (\<lambda>b. 0)(1 := 3, 2 := 6)"
  "return_node del_graph3 = (\<lambda>b. 1)(1 := 4, 2 := 7)"
  "nodes del_graph3 = (\<lambda>b. [])(0 := [2, 10], 1 := [5], 2 := [8, 9])"
  "node del_graph3 = (\<lambda>v. 0)(4 := 9, 5 := 10, 6 := 5, 7 := 2, 8 := 8)"
  "inputs del_graph3 = (\<lambda>n. [])(2 := [1], 5 := [0, 2], 8 := [0, 3], 9 := [0, 2], 10 := [0], 1 := [5],
       4 := [6], 7 := [0])"
  by (simp_all add: del_graph1_def del_graph2_def del_graph3_def del_graph_sel)

lemma del_visible:
  "visible (isBefore 3) del_graph3 7 0" "visible (isBefore 3) del_graph3 7 8"
  "visible (isBefore 3) del_graph3 7 4"
  "\<not> visible (isBefore 3) del_graph3 7 6" "\<not> visible (isBefore 3) del_graph3 7 7"
  "isBefore 3 del_graph3 8 9" "\<not> isBefore 3 del_graph3 9 8"
  by (simp_all add: visible_def isBefore_def topo_position_def del_graph3_sel isAncestor.simps
      eval_nat_numeral)

text \<open>
  Claim C2 on \<open>del_graph\<close>. The conversion records the aliases of the list \<open>%0\<close> in the
  order \<open>%6\<close>, \<open>%7\<close>, \<open>%8\<close>, \<open>%4\<close>. The nodes of \<open>%6\<close> (first branch) and of \<open>%4\<close> and
  \<open>%8\<close> (second branch) are not ordered by \<open>isBefore\<close>, so \<open>aliasComp\<close> falls back on
  the numbers of the values and the set iterates as \<open>%0, %4, %6, %7, %8\<close>. At the return
  node 7 of the second branch \<open>%8\<close> (the \<open>Delete\<close>, node 8) and \<open>%4\<close> (the \<open>append\<close>, node
  9) are both visible and node 8 is before node 9, but \<open>findAliasForValueAtNode\<close>
  returns \<open>%8\<close>, not the latest visible alias \<open>%4\<close>; the second branch then returns the
  list without the appended element.
\<close>

theorem sibling_write_hides_latest_alias:
  "convertInplaceOpsAndTrackAlias example_env 0 del_graph (init del_graph 0)
     = Some (Inr (del_graph3, del_tracker3)) \<and>
   alias_to_value del_tracker3 0 = Some 0 \<and>
   sorted_aliases del_tracker3 0 = [0, 4, 6, 7, 8] \<and>
   node del_graph3 8 = 8 \<and> node del_graph3 4 = 9 \<and>
   isBefore 3 del_graph3 8 9 \<and> \<not> isBefore 3 del_graph3 9 8 \<and>
   visible (isBefore 3) del_graph3 7 8 \<and> visible (isBefore 3) del_graph3 7 4 \<and>
   findAliasForValueAtNode (isBefore 3) del_graph3 del_tracker3 0 7 = Some (Inr 8) \<and>
   inputs del_graph3 7 = [0] \<and>
   map_option (map_sum id (\<lambda>g. inputs g 7))
     (correctAliasReferenceForInputs (isBefore 3) del_tracker3 7 del_graph3) = Some (Inr [8])"
proof -
  have a: "alias_to_value del_tracker3 0 = Some 0"
    "sorted_aliases del_tracker3 0 = [0, 4, 6, 7, 8]"
    "value_to_sorted_aliases del_tracker3 0
       = Some (Fork Black (Fork Black Leaf 0 (Fork Red Leaf 4 Leaf)) 6
                (Fork Black Leaf 7 (Fork Red Leaf 8 Leaf)))"
    by (simp_all add: del_tracker3_def sorted_aliases_def alias_set_def)
  have n: "node del_graph3 8 = 8" "node del_graph3 4 = 9" "inputs del_graph3 7 = [0]"
    by (simp_all add: del_graph3_sel)
  have vis: "filter (visible (isBefore 3) del_graph3 7) [0, 4, 6, 7, 8] = [0, 4, 8]"
    using del_visible by simp
  have wf: "wf_blocks if_depth del_graph3"
    by (simp add: wf_blocks_def del_graph3_sel if_depth_def)
  have "find_last_alias (isBefore 3) del_graph3 7 [0, 4, 6, 7, 8] None = Some (Some 8)"
    unfolding find_last_alias_filter[OF wf] vis by simp
  then have f: "findAliasForValueAtNode (isBefore 3) del_graph3 del_tracker3 0 7 = Some (Inr 8)"
    by (simp add: findAliasForValueAtNode_def a del: find_last_alias.simps)
  have c: "map_option (map_sum id (\<lambda>g. inputs g 7))
     (correctAliasReferenceForInputs (isBefore 3) del_tracker3 7 del_graph3) = Some (Inr [8])"
    by (simp add: correctAliasReferenceForInputs_def n f replaceInput_def
        del: find_last_alias.simps)
  from del_conversion a(1,2) n del_visible f c show ?thesis by simp
qed


subsection \<open>Threading a write out of a conditional or a loop\<close>

lemma from_outer_True:
  "from_outer g b as = Some True \<Longrightarrow>
     \<exists>a \<in> set as. isAncestor g (owningBlock g (node g a)) b = Some True"
  by (induction as) (auto split: bind_splits if_splits)

lemma from_outer_False:
  "from_outer g b as = Some False \<Longrightarrow>
     \<forall>a \<in> set as. isAncestor g (owningBlock g (node g a)) b = Some False"
  by (induction as) (auto split: bind_splits if_splits)

lemma register_if_outputs_static:
  "outputs (register_if_outputs g ob r n bs) = outputs g"
  "return_node (register_if_outputs g ob r n bs) = return_node g"
  "node (register_if_outputs g ob r n bs) = node g"
  "next_unique (register_if_outputs g ob r n bs) = next_unique g"
  by (induction bs arbitrary: g) (simp_all add: registerOutput_def addInput_def)

lemma register_if_outputs_other:
  "m \<notin> return_node g ` set bs \<Longrightarrow> inputs (register_if_outputs g ob r n bs) m = inputs g m"
  by (induction bs arbitrary: g) (auto simp: registerOutput_def addInput_def)

lemma register_if_outputs_block:
  "distinct (map (return_node g) bs) \<Longrightarrow> b \<in> set bs \<Longrightarrow>
   inputs (register_if_outputs g ob r n bs) (return_node g b) =
     inputs g (return_node g b) @ [if ob = b then n else r]"
proof (induction bs arbitrary: g)
  case Nil
  then show ?case by simp
next
  case (Cons x bs)
  let ?g1 = "registerOutput g x (if ob = x then n else r)"
  have rn: "return_node ?g1 = return_node g" by (simp add: registerOutput_def addInput_def)
  show ?case
  proof (cases "b = x")
    case True
    with Cons.prems have "return_node ?g1 b \<notin> return_node ?g1 ` set bs" by (auto simp: rn)
    from register_if_outputs_other[OF this] True show ?thesis
      by (simp add: rn registerOutput_def addInput_def)
  next
    case False
    with Cons.prems have b: "b \<in> set bs" by simp
    from Cons.prems have d: "distinct (map (return_node ?g1) bs)" by (simp add: rn)
    from Cons.prems(1) have "return_node g x \<notin> return_node g ` set bs" by simp
    with b have ne: "return_node g b \<noteq> return_node g x" by (metis imageI)
    from Cons.IH[OF d b] ne show ?thesis
      by (simp add: rn registerOutput_def addInput_def)
  qed
qed

lemma thread_if_effect:
  assumes "thread_if g ob ifn r n = (g', out)"
  shows "out = next_unique g"
    and "outputs g' ifn = outputs g ifn @ [out]"
    and "node g' out = ifn"
    and "return_node g' = return_node g"
    and "distinct (map (return_node g) (blocks g ifn)) \<Longrightarrow> b \<in> set (blocks g ifn) \<Longrightarrow>
         block_outputs g' b = block_outputs g b @ [if ob = b then n else r]"
  using assms
  by (auto simp: thread_if_def addOutput_def Let_def register_if_outputs_static
      register_if_outputs_block block_outputs_def)

lemma registerSetValue_root_block:
  "owningBlock g (node g new_v) = root_block vt \<Longrightarrow>
   registerSetValue bef g vt old_v new_v = Some (Inr (g, record_alias bef g vt old_v new_v))"
  by (subst registerSetValue.simps) (simp add: Let_def)

lemma registerSetValue_If:
  assumes "owningBlock g (node g new_v) = owning_block" and "owning_block \<noteq> root_block vt"
    and "owningNode g owning_block = Some ifn" and "kind g ifn = prim_If"
    and "\<not> registered g owning_block (sorted_aliases (record_alias bef g vt old_v new_v) (root_of vt old_v))"
    and "from_outer g (owningBlock g ifn) (sorted_aliases (record_alias bef g vt old_v new_v) (root_of vt old_v)) = Some outer"
  shows "registerSetValue bef g vt old_v new_v =
           (if outer
            then (case thread_if g owning_block ifn (root_of vt old_v) new_v of
                    (g', out) \<Rightarrow> registerSetValue bef g' (record_alias bef g vt old_v new_v) (root_of vt old_v) out)
            else Some (Inr (g, record_alias bef g vt old_v new_v)))"
  using assms
  by (subst registerSetValue.simps) (simp add: Let_def prim_If_def prim_Loop_def)




lemma from_outer_terminates:
  assumes "wf_blocks depth g"
  shows "\<exists>r. from_outer g b as = Some r"
proof (induction as)
  case Nil
  show ?case by (rule exI[of _ False]) simp
next
  case (Cons a as)
  obtain r where "isAncestor g (owningBlock g (node g a)) b = Some r"
    using isAncestor_terminates[OF assms] by blast
  with Cons show ?case by (cases r) auto
qed

lemma from_outer_iff:
  assumes "wf_blocks depth g"
  shows "from_outer g b as =
           Some (\<exists>a \<in> set as. isAncestor g (owningBlock g (node g a)) b = Some True)"
proof -
  obtain r where r: "from_outer g b as = Some r" using from_outer_terminates[OF assms] by blast
  show ?thesis
  proof (cases r)
    case True
    with r from_outer_True[of g b as] show ?thesis by simp
  next
    case False
    with r from_outer_False[of g b as] show ?thesis by auto
  qed
qed

lemma register_if_outputs_owning:
  "owningBlock (register_if_outputs g ob r n bs) = owningBlock g"
  "owningNode (register_if_outputs g ob r n bs) = owningNode g"
  "kind (register_if_outputs g ob r n bs) = kind g"
  by (induction bs arbitrary: g) (simp_all add: registerOutput_def addInput_def)

lemma thread_if_static:
  assumes "thread_if g ob ifn r n = (g', out)"
  shows "owningBlock g' = owningBlock g" and "owningNode g' = owningNode g" and "kind g' = kind g"
  using assms
  by (auto simp: thread_if_def addOutput_def Let_def register_if_outputs_owning)












text \<open>
  Claim C10. Let \<open>new_v\<close> be written in a block owned by an \<open>If\<close> node, in a graph whose
  blocks form a tree and where the sub-blocks of the \<open>If\<close> node have return nodes of their
  own, and let no alias of the root be an output of that block yet. If some alias of
  the root originates in a block that is an ancestor of the block of the \<open>If\<close> node, the
  tracker registers exactly one new output on every sub-block of the \<open>If\<close> node (\<open>new_v\<close>
  on the branch of the write, the root on the others) and exactly one new output on the
  \<open>If\<close> node, and goes on to register that output as an alias of the root (which ends at
  once when the \<open>If\<close> node is in the root block). If no alias does, the graph is left as
  it is.
\<close>

theorem if_threading_needs_outer_alias:
  assumes "wf_blocks depth g"
    and "owningBlock g (node g new_v) = owning_block" and "owning_block \<noteq> root_block vt"
    and "owningNode g owning_block = Some ifn" and "kind g ifn = prim_If"
    and "vt1 = record_alias bef g vt old_v new_v" and "root_v = root_of vt old_v"
    and "\<not> registered g owning_block (sorted_aliases vt1 root_v)"
    and "distinct (map (return_node g) (blocks g ifn))"
  shows "if \<exists>a \<in> set (sorted_aliases vt1 root_v).
              isAncestor g (owningBlock g (node g a)) (owningBlock g ifn) = Some True
         then \<exists>g' out. thread_if g owning_block ifn root_v new_v = (g', out) \<and>
                registerSetValue bef g vt old_v new_v = registerSetValue bef g' vt1 root_v out \<and>
                (\<forall>b \<in> set (blocks g ifn).
                    block_outputs g' b = block_outputs g b @ [if b = owning_block then new_v else root_v]) \<and>
                outputs g' ifn = outputs g ifn @ [out] \<and> node g' out = ifn \<and>
                (owningBlock g ifn = root_block vt \<longrightarrow>
                   registerSetValue bef g vt old_v new_v
                     = Some (Inr (g', record_alias bef g' vt1 root_v out)))
         else registerSetValue bef g vt old_v new_v = Some (Inr (g, vt1))"
proof -
  let ?outer = "\<exists>a \<in> set (sorted_aliases vt1 root_v).
              isAncestor g (owningBlock g (node g a)) (owningBlock g ifn) = Some True"
  have fo: "from_outer g (owningBlock g ifn) (sorted_aliases vt1 root_v) = Some ?outer"
    by (rule from_outer_iff[OF assms(1)])
  note unfold = registerSetValue_If[OF assms(2,3,4,5) assms(8)[unfolded assms(6,7)]
      fo[unfolded assms(6,7)], folded assms(6,7)]
  show ?thesis
  proof (cases ?outer)
    case False
    with unfold show ?thesis by simp
  next
    case True
    obtain g' out where t: "thread_if g owning_block ifn root_v new_v = (g', out)"
      by (cases "thread_if g owning_block ifn root_v new_v")
    from unfold True t
    have rec: "registerSetValue bef g vt old_v new_v = registerSetValue bef g' vt1 root_v out"
      by simp
    note eff = thread_if_effect[OF t]
    have outs: "\<forall>b \<in> set (blocks g ifn).
        block_outputs g' b = block_outputs g b @ [if b = owning_block then new_v else root_v]"
      using eff(5)[OF assms(9)] by auto
    have top: "owningBlock g ifn = root_block vt \<longrightarrow>
        registerSetValue bef g vt old_v new_v = Some (Inr (g', record_alias bef g' vt1 root_v out))"
    proof
      assume "owningBlock g ifn = root_block vt"
      then have "owningBlock g' (node g' out) = root_block vt1"
        using eff(3) thread_if_static(1)[OF t] assms(6)
        by (simp add: record_alias_def insert_alias_def set_alias_def track_root_def Let_def
            split: option.splits)
      from registerSetValue_root_block[OF this] rec
      show "registerSetValue bef g vt old_v new_v = Some (Inr (g', record_alias bef g' vt1 root_v out))"
        by simp
    qed
    from True t rec outs eff(2,3) top show ?thesis by auto
  qed
qed



text \<open>
  In the graph with the conditional, the write \<open>%4\<close> to \<open>%0\<close> in the first branch is
  threaded out: \<open>%0\<close> comes from the root block. Both branches had no output and have one
  afterwards, and the conditional has the output \<open>%7\<close>.
\<close>

theorem if_threading_needs_outer_alias_witness:
  "wf_blocks if_depth if_graph \<and>
   owningBlock if_graph (node if_graph 4) = 1 \<and> 1 \<noteq> root_block if_tracker1 \<and>
   owningNode if_graph 1 = Some 3 \<and> kind if_graph 3 = prim_If \<and>
   sorted_aliases (record_alias (isBefore 3) if_graph if_tracker1 0 4) (root_of if_tracker1 0) = [0, 3, 4] \<and>
   \<not> registered if_graph 1 [0, 3, 4] \<and>
   distinct (map (return_node if_graph) (blocks if_graph 3)) \<and>
   isAncestor if_graph (owningBlock if_graph (node if_graph 0)) (owningBlock if_graph 3) = Some True \<and>
   registerSetValue (isBefore 3) if_graph if_tracker1 0 4 = Some (Inr (if_graph_threaded, if_tracker)) \<and>
   blocks if_graph 3 = [1, 2] \<and>
   block_outputs if_graph 1 = [] \<and> block_outputs if_graph 2 = [] \<and> outputs if_graph 3 = [] \<and>
   block_outputs if_graph_threaded 1 = [4] \<and> block_outputs if_graph_threaded 2 = [0] \<and>
   outputs if_graph_threaded 3 = [7]"
proof -
  have wf: "wf_blocks if_depth if_graph"
    by (simp add: wf_blocks_def if_graph_sel if_depth_def)
  have h2: "owningBlock if_graph (node if_graph 4) = 1" by (simp add: if_graph_sel)
  have h3: "1 \<noteq> root_block if_tracker1" by (simp add: if_tracker1_def)
  have h4: "owningNode if_graph 1 = Some 3" by (simp add: if_graph_sel)
  have h5: "kind if_graph 3 = prim_If" by (simp add: if_graph_sel prim_If_def)
  have al: "sorted_aliases (record_alias (isBefore 3) if_graph if_tracker1 0 4) (root_of if_tracker1 0)
              = [0, 3, 4]"
    by code_simp
  have nr: "\<not> registered if_graph 1 [0, 3, 4]" by code_simp
  have bl: "blocks if_graph 3 = [1, 2]" by (simp add: if_graph_sel)
  have ds: "distinct (map (return_node if_graph) (blocks if_graph 3))"
    by (simp add: if_graph_sel)
  have anc: "isAncestor if_graph (owningBlock if_graph (node if_graph 0)) (owningBlock if_graph 3)
               = Some True"
    by code_simp
  have top: "owningBlock if_graph 3 = root_block if_tracker1"
    by (simp add: if_graph_sel if_tracker1_def)
  have before: "block_outputs if_graph 1 = []" "block_outputs if_graph 2 = []"
    "outputs if_graph 3 = []"
    by (simp_all add: block_outputs_def if_graph_sel)
  note main = if_threading_needs_outer_alias[OF wf h2 h3 h4 h5 refl refl nr[folded al] ds]
  have "\<exists>a \<in> set (sorted_aliases (record_alias (isBefore 3) if_graph if_tracker1 0 4)
                     (root_of if_tracker1 0)).
          isAncestor if_graph (owningBlock if_graph (node if_graph a)) (owningBlock if_graph 3)
            = Some True"
    using anc al by simp
  with main top obtain g' out where
    r: "registerSetValue (isBefore 3) if_graph if_tracker1 0 4
          = Some (Inr (g', record_alias (isBefore 3) g'
                (record_alias (isBefore 3) if_graph if_tracker1 0 4) (root_of if_tracker1 0) out))"
    and o: "\<forall>b \<in> set (blocks if_graph 3).
          block_outputs g' b = block_outputs if_graph b @ [if b = 1 then 4 else root_of if_tracker1 0]"
    and n: "outputs g' 3 = outputs if_graph 3 @ [out]" "thread_if if_graph 1 3 (root_of if_tracker1 0) 4 = (g', out)"
    by auto
  from r if_graph_second_write have g': "g' = if_graph_threaded" by simp
  have out: "out = 7" using thread_if_effect(1)[OF n(2)] by (simp add: if_graph_sel)
  have ro: "root_of if_tracker1 0 = 0" by (simp add: root_of_def if_tracker1_def)
  from o bl before g' ro have after: "block_outputs if_graph_threaded 1 = [4]"
    "block_outputs if_graph_threaded 2 = [0]"
    by simp_all
  from n(1) before out g' have oi: "outputs if_graph_threaded 3 = [7]" by simp
  show ?thesis
    using wf h2 h3 h4 h5 al nr ds anc if_graph_second_write bl before after oi by blast
qed













section \<open>Properties of the conversion of in-place operators\<close>










lemma removeAll_middle:
  "a \<notin> set pre \<Longrightarrow> a \<notin> set post \<Longrightarrow> removeAll a (pre @ a # post) = pre @ post"
  by simp













lemma observed_sum:
  "map_sum f h r = Inr y \<Longrightarrow> \<exists>a b. r = Inr (a, b) \<and> h (a, b) = y"
  by (cases r) auto




section \<open>Properties of the contraction-merge loop\<close>

lemma far_apart: "uint (c :: 64 word) - uint p > 64 \<Longrightarrow> c - p > 64"
proof -
  assume a: "uint c - uint p > 64"
  then have "uint p \<le> uint c" by simp
  then have "uint (c - p) = uint c - uint p" by (simp add: uint_sub_lem)
  with a show ?thesis by (simp add: word_less_alt)
qed

lemma try_producers_skip:
  "uint (ord (vertex dag consumer)) - uint (ord (vertex dag producer)) > 64
   \<or> length (out_edges (vertex dag producer)) > 16
   \<or> shouldConsiderForMerge diff g (vertex dag producer) = Inr False
   \<Longrightarrow> try_producers ce diff g 64 16 dag consumer (producer # rest)
       = try_producers ce diff g 64 16 dag consumer rest"
  by (auto dest: far_apart)

lemma try_producers_changed:
  "try_producers ce diff g dt ot dag consumer ps = Inr (True, dag') \<Longrightarrow>
     \<exists>d p. p \<in> set ps \<and> ce d p consumer = (True, dag')"
proof (induction ps arbitrary: dag)
  case Nil
  then show ?case by simp
next
  case (Cons p ps)
  show ?case
  proof (cases "ord (vertex dag consumer) - ord (vertex dag p) > dt
                 \<or> length (out_edges (vertex dag p)) > ot
                 \<or> shouldConsiderForMerge diff g (vertex dag p) = Inr False")
    case True
    with Cons.prems have "try_producers ce diff g dt ot dag consumer ps = Inr (True, dag')"
      by (auto split: if_splits)
    from Cons.IH[OF this] show ?thesis by auto
  next
    case False
    with Cons.prems have t: "shouldConsiderForMerge diff g (vertex dag p) = Inr True"
      by (auto split: sum.splits bool.splits)
    obtain b d where c: "ce dag p consumer = (b, d)" by (cases "ce dag p consumer")
    show ?thesis
    proof (cases b)
      case True
      with False t c Cons.prems have "d = dag'" by simp
      with True c show ?thesis by auto
    next
      case b: False
      with False t c Cons.prems have "try_producers ce diff g dt ot d consumer ps = Inr (True, dag')"
        by simp
      from Cons.IH[OF this] show ?thesis by auto
    qed
  qed
qed

lemma merge_round_after_scan:
  assumes "0 \<le> i" and "nat i < length (maybe_vertices dag)"
    and "maybe_vertices dag ! nat i = Some consumer"
    and "shouldConsiderForMerge diff g (vertex dag consumer) = Inr True"
    and "try_producers ce diff g dt ot dag consumer (rev (dag_sort dag (in_edges (vertex dag consumer))))
           = Inr (changed, dag')"
  shows "merge_round ce diff g dt ot dag i = Inr (dag', if changed then i else i - 1)"
    and "merge_rounds ce diff g dt ot dag i
           = merge_rounds ce diff g dt ot dag' (if changed then i else i - 1)"
proof -
  show r: "merge_round ce diff g dt ot dag i = Inr (dag', if changed then i else i - 1)"
    using assms by (simp add: merge_round_def)
  show "merge_rounds ce diff g dt ot dag i
          = merge_rounds ce diff g dt ot dag' (if changed then i else i - 1)"
    using assms(1) r by (subst merge_rounds.simps) simp
qed

text \<open>
  Claim C3. In the inner loop of \<open>find_differentiable_groups\<close>, with the default
  thresholds 64 and 16, a producer is passed over when the ordinal of the consumer minus
  its own exceeds 64, or when it has more than 16 out-edges, or when it is not eligible
  for merging: the loop then does exactly what it does on the remaining in-edges,
  whatever \<open>contractEdge\<close> is, so \<open>contractEdge\<close> is not called on it. A producer that
  passes the three tests and contracts ends the scan with \<open>changed\<close> set, and \<open>changed\<close> is
  set only by a contraction that succeeded. After the scan the outer loop goes on at the
  same ordinal, on the contracted graph, when \<open>changed\<close> is set, and one ordinal lower
  otherwise.
\<close>

theorem merge_loop_skips_and_stays:
  "(uint (ord (vertex dag consumer)) - uint (ord (vertex dag producer)) > 64
      \<or> length (out_edges (vertex dag producer)) > 16
      \<or> shouldConsiderForMerge diff g (vertex dag producer) = Inr False
    \<longrightarrow> try_producers ce diff g default_distance_threshold default_producer_outedge_threshold
          dag consumer (producer # rest)
        = try_producers ce diff g default_distance_threshold default_producer_outedge_threshold
          dag consumer rest) \<and>
   (\<not> ord (vertex dag consumer) - ord (vertex dag producer) > default_distance_threshold \<and>
    \<not> length (out_edges (vertex dag producer)) > default_producer_outedge_threshold \<and>
    shouldConsiderForMerge diff g (vertex dag producer) = Inr True \<and>
    ce dag producer consumer = (True, dag1)
    \<longrightarrow> try_producers ce diff g default_distance_threshold default_producer_outedge_threshold
          dag consumer (producer # rest) = Inr (True, dag1)) \<and>
   (try_producers ce diff g default_distance_threshold default_producer_outedge_threshold
      dag consumer ps = Inr (True, dag2)
    \<longrightarrow> (\<exists>d p. p \<in> set ps \<and> ce d p consumer = (True, dag2))) \<and>
   (0 \<le> i \<and> nat i < length (maybe_vertices dag) \<and>
    maybe_vertices dag ! nat i = Some consumer \<and>
    shouldConsiderForMerge diff g (vertex dag consumer) = Inr True \<and>
    try_producers ce diff g default_distance_threshold default_producer_outedge_threshold
      dag consumer (rev (dag_sort dag (in_edges (vertex dag consumer)))) = Inr (changed, dag3)
    \<longrightarrow> merge_round ce diff g default_distance_threshold default_producer_outedge_threshold dag i
          = Inr (dag3, if changed then i else i - 1) \<and>
        merge_rounds ce diff g default_distance_threshold default_producer_outedge_threshold dag i
          = merge_rounds ce diff g default_distance_threshold default_producer_outedge_threshold
              dag3 (if changed then i else i - 1))"
proof (intro conjI impI)
  assume "uint (ord (vertex dag consumer)) - uint (ord (vertex dag producer)) > 64
      \<or> length (out_edges (vertex dag producer)) > 16
      \<or> shouldConsiderForMerge diff g (vertex dag producer) = Inr False"
  then show "try_producers ce diff g default_distance_threshold default_producer_outedge_threshold
          dag consumer (producer # rest)
        = try_producers ce diff g default_distance_threshold default_producer_outedge_threshold
          dag consumer rest"
    unfolding default_distance_threshold_def default_producer_outedge_threshold_def
    by (rule try_producers_skip)
next
  assume "\<not> ord (vertex dag consumer) - ord (vertex dag producer) > default_distance_threshold \<and>
    \<not> length (out_edges (vertex dag producer)) > default_producer_outedge_threshold \<and>
    shouldConsiderForMerge diff g (vertex dag producer) = Inr True \<and>
    ce dag producer consumer = (True, dag1)"
  then show "try_producers ce diff g default_distance_threshold default_producer_outedge_threshold
          dag consumer (producer # rest) = Inr (True, dag1)"
    by simp
next
  assume "try_producers ce diff g default_distance_threshold default_producer_outedge_threshold
      dag consumer ps = Inr (True, dag2)"
  then show "\<exists>d p. p \<in> set ps \<and> ce d p consumer = (True, dag2)"
    by (rule try_producers_changed)
next
  assume a: "0 \<le> i \<and> nat i < length (maybe_vertices dag) \<and>
    maybe_vertices dag ! nat i = Some consumer \<and>
    shouldConsiderForMerge diff g (vertex dag consumer) = Inr True \<and>
    try_producers ce diff g default_distance_threshold default_producer_outedge_threshold
      dag consumer (rev (dag_sort dag (in_edges (vertex dag consumer)))) = Inr (changed, dag3)"
  then have b: "0 \<le> i" "nat i < length (maybe_vertices dag)"
    "maybe_vertices dag ! nat i = Some consumer"
    "shouldConsiderForMerge diff g (vertex dag consumer) = Inr True"
    "try_producers ce diff g default_distance_threshold default_producer_outedge_threshold
      dag consumer (rev (dag_sort dag (in_edges (vertex dag consumer)))) = Inr (changed, dag3)"
    by simp_all
  show "merge_round ce diff g default_distance_threshold default_producer_outedge_threshold dag i
          = Inr (dag3, if changed then i else i - 1)"
    by (rule merge_round_after_scan(1)[OF b])
  show "merge_rounds ce diff g default_distance_threshold default_producer_outedge_threshold dag i
          = merge_rounds ce diff g default_distance_threshold default_producer_outedge_threshold
              dag3 (if changed then i else i - 1)"
    by (rule merge_round_after_scan(2)[OF b])
qed

text \<open>
  In \<open>far_dag\<close> the consumer is vertex 2 at ordinal 70. Its in-edges in reverse order of
  ordinal are vertex 1 (ordinal 69) and vertex 0 (ordinal 0). Vertex 1 passes the tests
  and contracts, so the round at ordinal 70 is followed by another round at ordinal 70.
  Vertex 0 is 70 slots away and is passed over.
\<close>

lemma far_dag_sel:
  "vertex far_dag 0 = \<lparr>rdata = [2], ord = 0, in_edges = [], out_edges = [1]\<rparr>"
  "vertex far_dag 1 = \<lparr>rdata = [3], ord = 69, in_edges = [0], out_edges = [2]\<rparr>"
  "vertex far_dag (Suc 0) = \<lparr>rdata = [3], ord = 69, in_edges = [0], out_edges = [2]\<rparr>"
  "vertex far_dag 2 = \<lparr>rdata = [4], ord = 70, in_edges = [1, 0], out_edges = []\<rparr>"
  "length (maybe_vertices far_dag) = 71"
  "maybe_vertices far_dag ! 70 = Some 2"
  by (simp_all add: far_dag_def nth_append)

lemma chain_graph_kind: "kind chain_graph 2 = ''aten::relu''" "kind chain_graph 3 = ''aten::add''"
  "kind chain_graph 4 = ''aten::tanh''"
  by (simp_all add: chain_graph_def)

theorem merge_loop_skips_and_stays_witness:
  "uint (ord (vertex far_dag 2)) - uint (ord (vertex far_dag 0)) > 64 \<and>
   try_producers contract_always always_differentiable chain_graph
       default_distance_threshold default_producer_outedge_threshold far_dag 2 [0]
     = Inr (False, far_dag) \<and>
   \<not> ord (vertex far_dag 2) - ord (vertex far_dag 1) > default_distance_threshold \<and>
   \<not> length (out_edges (vertex far_dag 1)) > default_producer_outedge_threshold \<and>
   shouldConsiderForMerge always_differentiable chain_graph (vertex far_dag 1) = Inr True \<and>
   contract_always far_dag 1 2 = (True, absorb far_dag 1 2) \<and>
   rev (dag_sort far_dag (in_edges (vertex far_dag 2))) = [1, 0] \<and>
   try_producers contract_always always_differentiable chain_graph
       default_distance_threshold default_producer_outedge_threshold far_dag 2 [1, 0]
     = Inr (True, absorb far_dag 1 2) \<and>
   maybe_vertices far_dag ! nat 70 = Some 2 \<and>
   shouldConsiderForMerge always_differentiable chain_graph (vertex far_dag 2) = Inr True \<and>
   merge_round contract_always always_differentiable chain_graph
       default_distance_threshold default_producer_outedge_threshold far_dag 70
     = Inr (absorb far_dag 1 2, 70) \<and>
   merge_rounds contract_always always_differentiable chain_graph
       default_distance_threshold default_producer_outedge_threshold far_dag 70
     = merge_rounds contract_always always_differentiable chain_graph
       default_distance_threshold default_producer_outedge_threshold (absorb far_dag 1 2) 70"
proof -
  note main = merge_loop_skips_and_stays[of far_dag 2 _ always_differentiable chain_graph
      contract_always _ "absorb far_dag 1 2" _ _ 70 True "absorb far_dag 1 2"]
  have far: "uint (ord (vertex far_dag 2)) - uint (ord (vertex far_dag 0)) > 64"
    by (simp add: far_dag_sel)
  have skipped: "try_producers contract_always always_differentiable chain_graph
       default_distance_threshold default_producer_outedge_threshold far_dag 2 [0]
     = Inr (False, far_dag)"
    using main[of 0 "[]"] far by simp
  have near: "\<not> ord (vertex far_dag 2) - ord (vertex far_dag 1) > default_distance_threshold"
    by (simp add: far_dag_sel default_distance_threshold_def)
  have few: "\<not> length (out_edges (vertex far_dag 1)) > default_producer_outedge_threshold"
    by (simp add: far_dag_sel default_producer_outedge_threshold_def)
  have ok1: "shouldConsiderForMerge always_differentiable chain_graph (vertex far_dag 1) = Inr True"
    by (simp add: shouldConsiderForMerge_def far_dag_sel chain_graph_kind prim_Constant_def
        always_differentiable_def)
  have ok2: "shouldConsiderForMerge always_differentiable chain_graph (vertex far_dag 2) = Inr True"
    by (simp add: shouldConsiderForMerge_def far_dag_sel chain_graph_kind prim_Constant_def
        always_differentiable_def)
  have ce: "contract_always far_dag 1 2 = (True, absorb far_dag 1 2)"
    by (simp add: contract_always_def)
  have srt: "rev (dag_sort far_dag (in_edges (vertex far_dag 2))) = [1, 0]"
    by (simp add: dag_sort_def far_dag_sel)
  have scan: "try_producers contract_always always_differentiable chain_graph
       default_distance_threshold default_producer_outedge_threshold far_dag 2 [1, 0]
     = Inr (True, absorb far_dag 1 2)"
    using main[of 1 "[0]"] near few ok1 ce by simp
  have at70: "maybe_vertices far_dag ! nat 70 = Some 2" by (simp add: far_dag_sel)
  have len: "nat 70 < length (maybe_vertices far_dag)" by (simp add: far_dag_sel)
  have round: "merge_round contract_always always_differentiable chain_graph
       default_distance_threshold default_producer_outedge_threshold far_dag 70
     = Inr (absorb far_dag 1 2, 70) \<and>
   merge_rounds contract_always always_differentiable chain_graph
       default_distance_threshold default_producer_outedge_threshold far_dag 70
     = merge_rounds contract_always always_differentiable chain_graph
       default_distance_threshold default_producer_outedge_threshold (absorb far_dag 1 2) 70"
    using main[of 0 "[]"] at70 len ok2 scan srt by simp
  show ?thesis
    using far skipped near few ok1 ce srt scan at70 ok2 round by blast
qed

end
